theory Spec2Isabelle
  imports Main
begin

section \<open>Errors\<close>

text \<open>
  Modelled from the spec: \<open>utils/errors.ts\<close>, which declares the error classes and
  gives each its \<open>statusCode\<close>, is not among the sources. As section 7 of the
  specification has them, the classes are subclasses of \<open>AppError\<close> and their status
  codes are ValidationError 400, AuthenticationError 401, ConflictError 409,
  NotFoundError 404, DatabaseError 500.
\<close>

datatype error_kind =
  ValidationError | AuthenticationError | ConflictError | NotFoundError | DatabaseError

fun statusCode :: "error_kind \<Rightarrow> nat" where
  "statusCode ValidationError = 400"
| "statusCode AuthenticationError = 401"
| "statusCode ConflictError = 409"
| "statusCode NotFoundError = 404"
| "statusCode DatabaseError = 500"

text \<open>
  What the code throws is either an \<open>AppError\<close> of some kind with its message, or some
  other exception, such as the plain JavaScript \<open>Error\<close> of \<open>validateRequestBody\<close>:
  a \<open>JsError\<close> with its message.
\<close>

datatype error = AppError error_kind string | JsError string

section \<open>Data model\<close>

text \<open>
  JavaScript numbers that hold ids and quantities, and the SQL \<open>INTEGER\<close> columns, are
  unbounded integers here; timestamps are natural numbers. A field that is optional in
  the TypeScript interface is an \<open>option\<close>; \<open>undefined\<close> and SQL \<open>NULL\<close> are both
  \<open>None\<close>. Inputs are typed as the TypeScript interfaces type them.
\<close>

record GroceryItem =
  item_id :: int
  item_userId :: int
  item_name :: string
  item_quantity :: int
  item_store :: "string option"
  item_category :: "string option"
  item_notes :: "string option"
  item_isPurchased :: bool
  item_createdAt :: nat
  item_updatedAt :: nat

record GroceryItemResponse =
  resp_id :: int
  resp_name :: string
  resp_quantity :: int
  resp_store :: "string option"
  resp_category :: "string option"
  resp_notes :: "string option"
  resp_isPurchased :: bool
  resp_createdAt :: nat
  resp_updatedAt :: nat

record CreateGroceryItemRequest =
  c_name :: string
  c_quantity :: "int option"
  c_store :: "string option"
  c_category :: "string option"
  c_notes :: "string option"

record UpdateGroceryItemRequest =
  u_name :: "string option"
  u_quantity :: "int option"
  u_store :: "string option"
  u_category :: "string option"
  u_notes :: "string option"
  u_isPurchased :: "bool option"

record GroceryItemFilters =
  f_store :: "string option"
  f_category :: "string option"
  f_isPurchased :: "bool option"
  f_search :: "string option"

record User =
  user_id :: int
  user_email :: string
  user_createdAt :: nat
  user_updatedAt :: nat

record UserWithPassword =
  uwp_id :: int
  uwp_email :: string
  uwp_passwordHash :: string
  uwp_createdAt :: nat
  uwp_updatedAt :: nat

subsection \<open>The relational store\<close>

text \<open>
  The two tables of the initialisation script, each a list of rows in insertion order,
  the two \<open>SERIAL\<close> sequences and the value \<open>CURRENT_TIMESTAMP\<close> has for the statement
  being run. A statement that violates a constraint of the schema makes \<open>query\<close> throw
  \<open>DatabaseError('Database query failed')\<close>; a pool that cannot be reached is outside
  the model.
\<close>

record user_row =
  urow_id :: int
  urow_email :: string
  urow_password_hash :: string
  urow_created_at :: nat
  urow_updated_at :: nat

record grocery_row =
  row_id :: int
  row_user_id :: int
  row_name :: string
  row_quantity :: int
  row_store :: "string option"
  row_category :: "string option"
  row_notes :: "string option"
  row_is_purchased :: bool
  row_created_at :: nat
  row_updated_at :: nat

record database =
  users :: "user_row list"
  grocery_items :: "grocery_row list"
  users_id_seq :: int
  grocery_items_id_seq :: int
  current_timestamp :: nat

definition query_failed :: error where
  "query_failed = AppError DatabaseError ''Database query failed''"

text \<open>
  \<open>query\<close> hands the parameters of a statement to PostgreSQL as text. A parameter
  that is stored in or compared with an \<open>INTEGER\<close> column is read as a 32-bit integer,
  and a text parameter must not hold the character U+0000. A statement with a parameter
  that is not accepted is refused before it runs.
\<close>

definition int4_ok :: "int \<Rightarrow> bool" where
  "int4_ok n \<longleftrightarrow> - 2147483648 \<le> n \<and> n \<le> 2147483647"

definition text_ok :: "string \<Rightarrow> bool" where
  "text_ok s \<longleftrightarrow> CHR 0x00 \<notin> set s"

definition opt_text_ok :: "string option \<Rightarrow> bool" where
  "opt_text_ok v = (case v of None \<Rightarrow> True | Some s \<Rightarrow> text_ok s)"

text \<open>
  The constraints of \<open>grocery_items\<close>: \<open>name VARCHAR(255)\<close>, \<open>CHECK (quantity > 0)\<close>,
  \<open>store VARCHAR(255)\<close>, \<open>category VARCHAR(100)\<close> on every row written, and for a
  row inserted, \<open>user_id\<close> references a user.
\<close>

definition varchar_ok :: "nat \<Rightarrow> string option \<Rightarrow> bool" where
  "varchar_ok n v = (case v of None \<Rightarrow> True | Some s \<Rightarrow> length s \<le> n)"

definition columns_ok :: "grocery_row \<Rightarrow> bool" where
  "columns_ok r \<longleftrightarrow>
     length (row_name r) \<le> 255 \<and>
     0 < row_quantity r \<and>
     varchar_ok 255 (row_store r) \<and>
     varchar_ok 100 (row_category r)"

definition insert_ok :: "database \<Rightarrow> grocery_row \<Rightarrow> bool" where
  "insert_ok db r \<longleftrightarrow> row_user_id r \<in> set (map urow_id (users db)) \<and> columns_ok r"

section \<open>Validation (utils/validation.ts)\<close>

text \<open>
  A schema maps its input to the list of issue messages or to the parsed value. Issues
  are collected in the order of the keys of the schema, as Zod reports them.
\<close>

fun join :: "string \<Rightarrow> string list \<Rightarrow> string" where
  "join sep [] = []"
| "join sep [x] = x"
| "join sep (x # y # ys) = x @ sep @ join sep (y # ys)"

definition issue :: "bool \<Rightarrow> string \<Rightarrow> string list" where
  "issue violated message = (if violated then [message] else [])"

definition opt_issue :: "'a option \<Rightarrow> ('a \<Rightarrow> bool) \<Rightarrow> string \<Rightarrow> string list" where
  "opt_issue v violated message =
     (case v of None \<Rightarrow> [] | Some x \<Rightarrow> issue (violated x) message)"

definition createGroceryItemSchema ::
  "CreateGroceryItemRequest \<Rightarrow> string list + CreateGroceryItemRequest" where
  "createGroceryItemSchema d =
     (let errors =
        issue (length (c_name d) < 1) ''Item name is required'' @
        issue (length (c_name d) > 255) ''Item name must be 255 characters or less'' @
        opt_issue (c_quantity d) (\<lambda>q. q < 1) ''Quantity must be at least 1'' @
        opt_issue (c_store d) (\<lambda>s. length s > 255) ''Store name must be 255 characters or less'' @
        opt_issue (c_category d) (\<lambda>s. length s > 100) ''Category must be 100 characters or less'' @
        opt_issue (c_notes d) (\<lambda>s. length s > 1000) ''Notes must be 1000 characters or less''
      in if errors = []
         then Inr (d\<lparr>c_quantity := Some (case c_quantity d of None \<Rightarrow> 1 | Some q \<Rightarrow> q)\<rparr>)
         else Inl errors)"

text \<open>
  \<open>Object.keys(data).length\<close> of a parsed patch: the fields that are present. (A body
  parsed from JSON has no key whose value is \<open>undefined\<close>.)
\<close>

definition keys_present :: "UpdateGroceryItemRequest \<Rightarrow> nat" where
  "keys_present d =
     (if u_name d = None then 0 else 1) + (if u_quantity d = None then 0 else 1) +
     (if u_store d = None then 0 else 1) + (if u_category d = None then 0 else 1) +
     (if u_notes d = None then 0 else 1) + (if u_isPurchased d = None then 0 else 1)"

definition updateGroceryItemSchema ::
  "UpdateGroceryItemRequest \<Rightarrow> string list + UpdateGroceryItemRequest" where
  "updateGroceryItemSchema d =
     (let errors =
        opt_issue (u_name d) (\<lambda>s. length s < 1) ''Item name cannot be empty'' @
        opt_issue (u_name d) (\<lambda>s. length s > 255) ''Item name must be 255 characters or less'' @
        opt_issue (u_quantity d) (\<lambda>q. q < 1) ''Quantity must be at least 1'' @
        opt_issue (u_store d) (\<lambda>s. length s > 255) ''Store name must be 255 characters or less'' @
        opt_issue (u_category d) (\<lambda>s. length s > 100) ''Category must be 100 characters or less'' @
        opt_issue (u_notes d) (\<lambda>s. length s > 1000) ''Notes must be 1000 characters or less'' @
        issue (\<not> keys_present d > 0) ''At least one field must be provided for update''
      in if errors = [] then Inr d else Inl errors)"

definition groceryItemFiltersSchema ::
  "GroceryItemFilters \<Rightarrow> string list + GroceryItemFilters" where
  "groceryItemFiltersSchema d =
     (let errors =
        opt_issue (f_store d) (\<lambda>s. length s > 255) ''Store filter must be 255 characters or less'' @
        opt_issue (f_category d) (\<lambda>s. length s > 100) ''Category filter must be 100 characters or less'' @
        opt_issue (f_search d) (\<lambda>s. length s > 255) ''Search term must be 255 characters or less''
      in if errors = [] then Inr d else Inl errors)"

definition idSchema :: "int \<Rightarrow> string list + int" where
  "idSchema n = (if n > 0 then Inr n else Inl [''ID must be a positive integer''])"

definition validateRequestBody :: "('a \<Rightarrow> string list + 'b) \<Rightarrow> 'a \<Rightarrow> error + 'b" where
  "validateRequestBody schema d =
     (case schema d of
        Inl errors \<Rightarrow> Inl (JsError (''Validation failed: '' @ join '', '' errors))
      | Inr v \<Rightarrow> Inr v)"

section \<open>Grocery item repository\<close>

text \<open>
  Every statement of \<open>PostgresGroceryItemRepository\<close> names its columns: none of them
  selects, inserts or sets \<open>store\<close>, so the object \<open>mapDbRowToGroceryItem\<close> builds has
  no \<open>store\<close> property.
\<close>

definition mapDbRowToGroceryItem :: "grocery_row \<Rightarrow> GroceryItem" where
  "mapDbRowToGroceryItem row =
     \<lparr>item_id = row_id row, item_userId = row_user_id row, item_name = row_name row,
      item_quantity = row_quantity row, item_store = None,
      item_category = row_category row, item_notes = row_notes row,
      item_isPurchased = row_is_purchased row,
      item_createdAt = row_created_at row, item_updatedAt = row_updated_at row\<rparr>"

text \<open>
  \<open>x || null\<close> on an optional string: \<open>undefined\<close> and the empty string give \<open>null\<close>.
  An \<open>INSERT ... RETURNING\<close> that does not fail returns its row, so the branch of
  \<open>create\<close> for \<open>rowCount === 0\<close> is never taken.
\<close>

definition or_null :: "string option \<Rightarrow> string option" where
  "or_null v = (case v of None \<Rightarrow> None | Some s \<Rightarrow> if s = [] then None else Some s)"

text \<open>
  \<open>create\<close>. The statement is refused when one of its five parameters is not accepted
  or the sequence is exhausted. Otherwise the row takes the next value of the sequence,
  and that value is used up also when the row then violates a constraint.
\<close>

definition item_repo_create ::
  "database \<Rightarrow> int \<Rightarrow> CreateGroceryItemRequest \<Rightarrow> (error + GroceryItem) \<times> database" where
  "item_repo_create db userId itemData =
     (let quantity = (case c_quantity itemData of None \<Rightarrow> 1 | Some q \<Rightarrow> q);
          row = \<lparr>row_id = grocery_items_id_seq db, row_user_id = userId,
                 row_name = c_name itemData, row_quantity = quantity, row_store = None,
                 row_category = or_null (c_category itemData),
                 row_notes = or_null (c_notes itemData), row_is_purchased = False,
                 row_created_at = current_timestamp db,
                 row_updated_at = current_timestamp db\<rparr>
      in if \<not> (int4_ok userId \<and> text_ok (row_name row) \<and> int4_ok quantity \<and>
                opt_text_ok (row_category row) \<and> opt_text_ok (row_notes row) \<and>
                int4_ok (grocery_items_id_seq db))
         then (Inl query_failed, db)
         else if insert_ok db row
         then (Inr (mapDbRowToGroceryItem row),
               db\<lparr>grocery_items := grocery_items db @ [row],
                  grocery_items_id_seq := grocery_items_id_seq db + 1\<rparr>)
         else (Inl query_failed,
               db\<lparr>grocery_items_id_seq := grocery_items_id_seq db + 1\<rparr>))"

definition item_repo_findById ::
  "database \<Rightarrow> int \<Rightarrow> int \<Rightarrow> error + GroceryItem option" where
  "item_repo_findById db ident userId =
     (if \<not> (int4_ok ident \<and> int4_ok userId) then Inl query_failed
      else
        (case filter (\<lambda>r. row_id r = ident \<and> row_user_id r = userId) (grocery_items db) of
           [] \<Rightarrow> Inr None
         | row # _ \<Rightarrow> Inr (Some (mapDbRowToGroceryItem row))))"

text \<open>
  \<open>findByUserId\<close>. A string filter is applied when it is truthy. \<open>ILIKE\<close> is the
  store's operator and a parameter of the model (\<open>ilike text pattern\<close>); on a \<open>NULL\<close>
  column it is not true. \<open>ORDER BY created_at DESC\<close> is a stable sort here: SQL leaves
  the order of rows of equal \<open>created_at\<close> open.
\<close>

definition truthy :: "string option \<Rightarrow> bool" where
  "truthy v = (case v of None \<Rightarrow> False | Some s \<Rightarrow> s \<noteq> [])"

definition ilike_column :: "(string \<Rightarrow> string \<Rightarrow> bool) \<Rightarrow> string option \<Rightarrow> string \<Rightarrow> bool" where
  "ilike_column ilike column pattern =
     (case column of None \<Rightarrow> False | Some s \<Rightarrow> ilike s pattern)"

definition filters_where ::
  "(string \<Rightarrow> string \<Rightarrow> bool) \<Rightarrow> int \<Rightarrow> GroceryItemFilters option \<Rightarrow> grocery_row \<Rightarrow> bool" where
  "filters_where ilike userId filters r \<longleftrightarrow>
     row_user_id r = userId \<and>
     (case filters of None \<Rightarrow> True
      | Some f \<Rightarrow>
          (truthy (f_category f) \<longrightarrow> row_category r = f_category f) \<and>
          (f_isPurchased f \<noteq> None \<longrightarrow> Some (row_is_purchased r) = f_isPurchased f) \<and>
          (truthy (f_search f) \<longrightarrow>
             (let pattern = ''%'' @ the (f_search f) @ ''%''
              in ilike (row_name r) pattern \<or> ilike_column ilike (row_notes r) pattern)))"

definition order_by_created_at_desc :: "grocery_row list \<Rightarrow> grocery_row list" where
  "order_by_created_at_desc rows = sort_key (\<lambda>r. - int (row_created_at r)) rows"

text \<open>The parameters of the filters that are applied: the category and the search term.\<close>

definition filters_params_ok :: "GroceryItemFilters option \<Rightarrow> bool" where
  "filters_params_ok filters =
     (case filters of
        None \<Rightarrow> True
      | Some f \<Rightarrow>
          (truthy (f_category f) \<longrightarrow> opt_text_ok (f_category f)) \<and>
          (truthy (f_search f) \<longrightarrow> opt_text_ok (f_search f)))"

definition item_repo_findByUserId ::
  "(string \<Rightarrow> string \<Rightarrow> bool) \<Rightarrow> database \<Rightarrow> int \<Rightarrow> GroceryItemFilters option
     \<Rightarrow> error + GroceryItem list" where
  "item_repo_findByUserId ilike db userId filters =
     (if \<not> (int4_ok userId \<and> filters_params_ok filters) then Inl query_failed
      else
        Inr (map mapDbRowToGroceryItem
               (order_by_created_at_desc
                  (filter (filters_where ilike userId filters) (grocery_items db)))))"

text \<open>
  \<open>update\<close> builds its \<open>SET\<close> clause from the fields of the patch that are not
  \<open>undefined\<close>, over a fixed list of five columns.
\<close>

datatype assignment =
  Set_name string | Set_quantity int | Set_category string | Set_notes string
  | Set_is_purchased bool

definition updateFields :: "UpdateGroceryItemRequest \<Rightarrow> assignment list" where
  "updateFields updateData =
     (case u_name updateData of None \<Rightarrow> [] | Some v \<Rightarrow> [Set_name v]) @
     (case u_quantity updateData of None \<Rightarrow> [] | Some v \<Rightarrow> [Set_quantity v]) @
     (case u_category updateData of None \<Rightarrow> [] | Some v \<Rightarrow> [Set_category v]) @
     (case u_notes updateData of None \<Rightarrow> [] | Some v \<Rightarrow> [Set_notes v]) @
     (case u_isPurchased updateData of None \<Rightarrow> [] | Some v \<Rightarrow> [Set_is_purchased v])"

fun assign :: "assignment \<Rightarrow> grocery_row \<Rightarrow> grocery_row" where
  "assign (Set_name v) r = r\<lparr>row_name := v\<rparr>"
| "assign (Set_quantity v) r = r\<lparr>row_quantity := v\<rparr>"
| "assign (Set_category v) r = r\<lparr>row_category := Some v\<rparr>"
| "assign (Set_notes v) r = r\<lparr>row_notes := Some v\<rparr>"
| "assign (Set_is_purchased v) r = r\<lparr>row_is_purchased := v\<rparr>"

definition set_clause :: "database \<Rightarrow> assignment list \<Rightarrow> grocery_row \<Rightarrow> grocery_row" where
  "set_clause db assignments r =
     (fold assign assignments r)\<lparr>row_updated_at := current_timestamp db\<rparr>"

fun assignment_ok :: "assignment \<Rightarrow> bool" where
  "assignment_ok (Set_name v) = text_ok v"
| "assignment_ok (Set_quantity v) = int4_ok v"
| "assignment_ok (Set_category v) = text_ok v"
| "assignment_ok (Set_notes v) = text_ok v"
| "assignment_ok (Set_is_purchased v) = True"

definition item_repo_update ::
  "database \<Rightarrow> int \<Rightarrow> int \<Rightarrow> UpdateGroceryItemRequest \<Rightarrow> (error + GroceryItem) \<times> database" where
  "item_repo_update db ident userId updateData =
     (let assignments = updateFields updateData
      in if assignments = [] then (Inl (AppError DatabaseError ''No fields to update''), db)
         else if \<not> (list_all assignment_ok assignments \<and> int4_ok ident \<and> int4_ok userId)
         then (Inl query_failed, db)
         else
           let hit = (\<lambda>r. row_id r = ident \<and> row_user_id r = userId);
               rows = map (set_clause db assignments) (filter hit (grocery_items db))
           in if \<not> list_all columns_ok rows then (Inl query_failed, db)
              else case rows of
                     [] \<Rightarrow> (Inl (AppError NotFoundError ''Grocery item not found''), db)
                   | row # _ \<Rightarrow>
                       (Inr (mapDbRowToGroceryItem row),
                        db\<lparr>grocery_items :=
                             map (\<lambda>r. if hit r then set_clause db assignments r else r)
                               (grocery_items db)\<rparr>))"

definition item_repo_delete ::
  "database \<Rightarrow> int \<Rightarrow> int \<Rightarrow> (error + bool) \<times> database" where
  "item_repo_delete db ident userId =
     (if \<not> (int4_ok ident \<and> int4_ok userId) then (Inl query_failed, db)
      else
        let hit = (\<lambda>r. row_id r = ident \<and> row_user_id r = userId)
        in (Inr (length (filter hit (grocery_items db)) > 0),
            db\<lparr>grocery_items := filter (\<lambda>r. \<not> hit r) (grocery_items db)\<rparr>))"

section \<open>Grocery item service\<close>

definition toGroceryItemResponse :: "GroceryItem \<Rightarrow> GroceryItemResponse" where
  "toGroceryItemResponse item =
     \<lparr>resp_id = item_id item, resp_name = item_name item,
      resp_quantity = item_quantity item, resp_store = item_store item,
      resp_category = item_category item, resp_notes = item_notes item,
      resp_isPurchased = item_isPurchased item,
      resp_createdAt = item_createdAt item, resp_updatedAt = item_updatedAt item\<rparr>"

definition not_found :: error where
  "not_found = AppError NotFoundError ''Grocery item not found''"

definition createItem ::
  "database \<Rightarrow> int \<Rightarrow> CreateGroceryItemRequest
     \<Rightarrow> (error + GroceryItemResponse) \<times> database" where
  "createItem db userId itemData =
     (case validateRequestBody createGroceryItemSchema itemData of
        Inl e \<Rightarrow> (Inl e, db)
      | Inr validatedData \<Rightarrow>
          (case item_repo_create db userId validatedData of
             (Inl e, db') \<Rightarrow> (Inl e, db')
           | (Inr item, db') \<Rightarrow> (Inr (toGroceryItemResponse item), db')))"

definition getItem :: "database \<Rightarrow> int \<Rightarrow> int \<Rightarrow> error + GroceryItemResponse" where
  "getItem db ident userId =
     (case validateRequestBody idSchema ident of
        Inl e \<Rightarrow> Inl e
      | Inr _ \<Rightarrow>
          (case item_repo_findById db ident userId of
             Inl e \<Rightarrow> Inl e
           | Inr None \<Rightarrow> Inl not_found
           | Inr (Some item) \<Rightarrow> Inr (toGroceryItemResponse item)))"

definition getUserItems ::
  "(string \<Rightarrow> string \<Rightarrow> bool) \<Rightarrow> database \<Rightarrow> int \<Rightarrow> GroceryItemFilters option
     \<Rightarrow> error + GroceryItemResponse list" where
  "getUserItems ilike db userId filters =
     (case (case filters of
              None \<Rightarrow> Inr None
            | Some f \<Rightarrow>
                (case validateRequestBody groceryItemFiltersSchema f of
                   Inl e \<Rightarrow> Inl e
                 | Inr f' \<Rightarrow> Inr (Some f'))) of
        Inl e \<Rightarrow> Inl e
      | Inr filters' \<Rightarrow>
          (case item_repo_findByUserId ilike db userId filters' of
             Inl e \<Rightarrow> Inl e
           | Inr items \<Rightarrow> Inr (map toGroceryItemResponse items)))"

definition updateItem ::
  "database \<Rightarrow> int \<Rightarrow> int \<Rightarrow> UpdateGroceryItemRequest
     \<Rightarrow> (error + GroceryItemResponse) \<times> database" where
  "updateItem db ident userId updateData =
     (case validateRequestBody idSchema ident of
        Inl e \<Rightarrow> (Inl e, db)
      | Inr _ \<Rightarrow>
          (case validateRequestBody updateGroceryItemSchema updateData of
             Inl e \<Rightarrow> (Inl e, db)
           | Inr validatedData \<Rightarrow>
               (case item_repo_update db ident userId validatedData of
                  (Inl e, db') \<Rightarrow> (Inl e, db')
                | (Inr item, db') \<Rightarrow> (Inr (toGroceryItemResponse item), db'))))"

definition deleteItem :: "database \<Rightarrow> int \<Rightarrow> int \<Rightarrow> (error + unit) \<times> database" where
  "deleteItem db ident userId =
     (case validateRequestBody idSchema ident of
        Inl e \<Rightarrow> (Inl e, db)
      | Inr _ \<Rightarrow>
          (case item_repo_delete db ident userId of
             (Inl e, db') \<Rightarrow> (Inl e, db')
           | (Inr deleted, db') \<Rightarrow>
               if \<not> deleted then (Inl not_found, db') else (Inr (), db')))"

section \<open>Users, tokens and passwords\<close>

record LoginRequest =
  login_email :: string
  login_password :: string

record AuthTokens =
  accessToken :: string
  refreshToken :: string

record JWTPayload =
  jwt_userId :: int
  jwt_email :: string

text \<open>
  What a token string decodes to: the payload and the registered claims \<open>nbf\<close> and
  \<open>exp\<close> that the jsonwebtoken library checks, in whole seconds as \<open>jwt.sign\<close>
  writes them. A token whose \<open>nbf\<close> or \<open>exp\<close> is no number is refused by the
  library with a \<open>JsonWebTokenError\<close> and counts here among the strings that do not
  decode.
\<close>

record decoded_token =
  token_payload :: JWTPayload
  token_nbf :: "nat option"
  token_exp :: "nat option"

text \<open>
  \<open>jwt.verify\<close> returns the payload or throws. \<open>verifyToken\<close> tells three classes
  of exception apart: \<open>TokenExpiredError\<close>, any other \<open>JsonWebTokenError\<close> (which
  includes \<open>NotBeforeError\<close>), and anything else.
\<close>

datatype jwt_exception = TokenExpiredError | JsonWebTokenError | OtherException

datatype jwt_result = Decoded JWTPayload | Thrown jwt_exception

text \<open>
  The libraries, the clock and the configuration the code runs against are parameters
  of the model: of jsonwebtoken the signing, the decoding of a token string (\<open>None\<close>
  for a string that is no well-formed token) and the check of a token's signature
  against a secret; the clock in seconds; the comparison of bcryptjs; the e-mail test of
  Zod; and the three settings of \<open>config.auth\<close> that the modelled code reads.
\<close>

record env =
  jwt_sign :: "JWTPayload \<Rightarrow> string \<Rightarrow> string \<Rightarrow> string"
  jwt_decode :: "string \<Rightarrow> decoded_token option"
  jws_verify :: "string \<Rightarrow> string \<Rightarrow> bool"
  clock :: nat
  bcrypt_compare :: "string \<Rightarrow> string \<Rightarrow> bool"
  zod_email :: "string \<Rightarrow> bool"
  jwtSecret :: string
  jwtExpiresIn :: string
  refreshTokenExpiresIn :: string

subsection \<open>User repository\<close>

definition user_of_row :: "user_row \<Rightarrow> User" where
  "user_of_row r =
     \<lparr>user_id = urow_id r, user_email = urow_email r,
      user_createdAt = urow_created_at r, user_updatedAt = urow_updated_at r\<rparr>"

definition user_repo_findByEmail :: "database \<Rightarrow> string \<Rightarrow> User option" where
  "user_repo_findByEmail db email =
     (case filter (\<lambda>r. urow_email r = email) (users db) of
        [] \<Rightarrow> None
      | r # _ \<Rightarrow> Some (user_of_row r))"

definition user_repo_findById :: "database \<Rightarrow> int \<Rightarrow> User option" where
  "user_repo_findById db ident =
     (case filter (\<lambda>r. urow_id r = ident) (users db) of
        [] \<Rightarrow> None
      | r # _ \<Rightarrow> Some (user_of_row r))"

definition user_repo_findByIdWithPassword :: "database \<Rightarrow> int \<Rightarrow> UserWithPassword option" where
  "user_repo_findByIdWithPassword db ident =
     (case filter (\<lambda>r. urow_id r = ident) (users db) of
        [] \<Rightarrow> None
      | r # _ \<Rightarrow>
          Some \<lparr>uwp_id = urow_id r, uwp_email = urow_email r,
                uwp_passwordHash = urow_password_hash r,
                uwp_createdAt = urow_created_at r, uwp_updatedAt = urow_updated_at r\<rparr>)"

subsection \<open>auth/jwt.ts and auth/password.ts\<close>

definition generateTokens :: "env \<Rightarrow> int \<Rightarrow> string \<Rightarrow> AuthTokens" where
  "generateTokens e userId email =
     (let payload = \<lparr>jwt_userId = userId, jwt_email = email\<rparr>
      in \<lparr>accessToken = jwt_sign e payload (jwtSecret e) (jwtExpiresIn e),
          refreshToken = jwt_sign e payload (jwtSecret e) (refreshTokenExpiresIn e)\<rparr>)"

text \<open>
  \<open>jwt.verify(token, secret)\<close> of jsonwebtoken, called with no options, in the order
  of the library's checks: a string that does not decode is refused (\<open>jwt malformed\<close>,
  \<open>invalid token\<close>), then a signature that does not verify under the secret
  (\<open>invalid signature\<close>; a missing signature or another algorithm counts as one that
  does not verify), then a token used before its \<open>nbf\<close> (\<open>jwt not active\<close>), each
  with a \<open>JsonWebTokenError\<close>; then a token whose \<open>exp\<close> the clock has reached, with
  \<open>TokenExpiredError\<close>. The library compares \<open>clockTimestamp >= exp\<close>.
\<close>

definition not_active :: "env \<Rightarrow> decoded_token \<Rightarrow> bool" where
  "not_active e t = (case token_nbf t of None \<Rightarrow> False | Some n \<Rightarrow> clock e < n)"

definition expired :: "env \<Rightarrow> decoded_token \<Rightarrow> bool" where
  "expired e t = (case token_exp t of None \<Rightarrow> False | Some x \<Rightarrow> x \<le> clock e)"

definition jwt_verify :: "env \<Rightarrow> string \<Rightarrow> string \<Rightarrow> jwt_result" where
  "jwt_verify e token secret =
     (case jwt_decode e token of
        None \<Rightarrow> Thrown JsonWebTokenError
      | Some t \<Rightarrow>
          if \<not> jws_verify e token secret then Thrown JsonWebTokenError
          else if not_active e t then Thrown JsonWebTokenError
          else if expired e t then Thrown TokenExpiredError
          else Decoded (token_payload t))"

definition verifyToken :: "env \<Rightarrow> string \<Rightarrow> error + JWTPayload" where
  "verifyToken e token =
     (case jwt_verify e token (jwtSecret e) of
        Decoded payload \<Rightarrow> Inr payload
      | Thrown TokenExpiredError \<Rightarrow> Inl (AppError AuthenticationError ''Token has expired'')
      | Thrown JsonWebTokenError \<Rightarrow> Inl (AppError AuthenticationError ''Invalid token'')
      | Thrown OtherException \<Rightarrow>
          Inl (AppError AuthenticationError ''Token verification failed''))"

text \<open>\<open>String.prototype.split\<close> on a one-character separator.\<close>

fun split :: "char \<Rightarrow> string \<Rightarrow> string list" where
  "split sep [] = [[]]"
| "split sep (c # cs) =
     (if c = sep then [] # split sep cs
      else (case split sep cs of [] \<Rightarrow> [[c]] | p # ps \<Rightarrow> (c # p) # ps))"

definition extractTokenFromHeader :: "string option \<Rightarrow> error + string" where
  "extractTokenFromHeader authHeader =
     (case authHeader of
        None \<Rightarrow> Inl (AppError AuthenticationError ''Authorization header missing'')
      | Some h \<Rightarrow>
          if h = [] then Inl (AppError AuthenticationError ''Authorization header missing'')
          else
            let parts = split CHR '' '' h
            in if length parts \<noteq> 2 \<or> parts ! 0 \<noteq> ''Bearer''
               then Inl (AppError AuthenticationError ''Invalid authorization header format'')
               else Inr (parts ! 1))"

definition verifyPassword :: "env \<Rightarrow> string \<Rightarrow> string \<Rightarrow> bool" where
  "verifyPassword e password hash = bcrypt_compare e password hash"

subsection \<open>Authentication service\<close>

definition loginSchema :: "env \<Rightarrow> LoginRequest \<Rightarrow> string list + LoginRequest" where
  "loginSchema e d =
     (let errors =
        issue (\<not> zod_email e (login_email d)) ''Invalid email format'' @
        issue (length (login_password d) < 1) ''Password is required''
      in if errors = [] then Inr d else Inl errors)"

definition invalid_credentials :: error where
  "invalid_credentials = AppError AuthenticationError ''Invalid email or password''"

definition login :: "env \<Rightarrow> database \<Rightarrow> LoginRequest \<Rightarrow> error + User \<times> AuthTokens" where
  "login e db loginData =
     (case validateRequestBody (loginSchema e) loginData of
        Inl err \<Rightarrow> Inl err
      | Inr validatedData \<Rightarrow>
          (let email = login_email validatedData;
               password = login_password validatedData;
               userWithPassword =
                 user_repo_findByIdWithPassword db
                   (case user_repo_findByEmail db email of
                      None \<Rightarrow> 0
                    | Some u \<Rightarrow> (if user_id u = 0 then 0 else user_id u))
           in (case userWithPassword of
                 None \<Rightarrow> Inl invalid_credentials
               | Some uwp \<Rightarrow>
                   (if \<not> verifyPassword e password (uwp_passwordHash uwp)
                    then Inl invalid_credentials
                    else
                      (let user = \<lparr>user_id = uwp_id uwp, user_email = uwp_email uwp,
                                   user_createdAt = uwp_createdAt uwp,
                                   user_updatedAt = uwp_updatedAt uwp\<rparr>
                       in Inr (user, generateTokens e (user_id user) (user_email user)))))))"

definition validateUser :: "database \<Rightarrow> int \<Rightarrow> error + User" where
  "validateUser db userId =
     (case user_repo_findById db userId of
        None \<Rightarrow> Inl (AppError AuthenticationError ''User not found'')
      | Some user \<Rightarrow> Inr user)"

section \<open>HTTP layer\<close>

datatype response_body =
  Error_body string
  | Message_body string
  | Item_body string GroceryItemResponse
  | Items_body string "GroceryItemResponse list" nat

record response =
  status :: nat
  body :: response_body

text \<open>
  A request: its \<open>Authorization\<close> header, the query parameters of its URL, and the JSON
  of its body typed as the handler types it (\<open>None\<close> when \<open>request.json()\<close> throws).
\<close>

record 'b request =
  authorization :: "string option"
  searchParams :: "string \<Rightarrow> string option"
  json :: "'b option"

subsection \<open>auth/middleware.ts\<close>

text \<open>The \<open>catch\<close> of \<open>authenticate\<close>: every error leaves as an AuthenticationError.\<close>

definition authenticate_catch :: "error \<Rightarrow> error" where
  "authenticate_catch err =
     (case err of
        AppError AuthenticationError m \<Rightarrow> err
      | _ \<Rightarrow> AppError AuthenticationError ''Authentication failed'')"

definition authenticate :: "env \<Rightarrow> database \<Rightarrow> 'b request \<Rightarrow> error + User" where
  "authenticate e db request =
     (case extractTokenFromHeader (authorization request) of
        Inl err \<Rightarrow> Inl (authenticate_catch err)
      | Inr token \<Rightarrow>
          (case verifyToken e token of
             Inl err \<Rightarrow> Inl (authenticate_catch err)
           | Inr payload \<Rightarrow>
               (case validateUser db (jwt_userId payload) of
                  Inl err \<Rightarrow> Inl (authenticate_catch err)
                | Inr user \<Rightarrow> Inr user)))"

definition internal_server_error :: response where
  "internal_server_error = \<lparr>status = 500, body = Error_body ''Internal server error''\<rparr>"

definition withAuth_catch :: "error \<Rightarrow> response" where
  "withAuth_catch err =
     (case err of
        AppError AuthenticationError m \<Rightarrow>
          \<lparr>status = statusCode AuthenticationError, body = Error_body m\<rparr>
      | _ \<Rightarrow> internal_server_error)"

text \<open>
  \<open>withAuth\<close> wraps a handler. The handler works on the store and returns a response
  or throws; the wrapper calls it with the user \<open>authenticate\<close> returned, and only then.
\<close>

definition withAuth ::
  "env \<Rightarrow> ('b request \<Rightarrow> 'c \<Rightarrow> User \<Rightarrow> database \<Rightarrow> (error + response) \<times> database)
     \<Rightarrow> 'b request \<Rightarrow> 'c \<Rightarrow> database \<Rightarrow> response \<times> database" where
  "withAuth e handler request context db =
     (case authenticate e db request of
        Inl err \<Rightarrow> (withAuth_catch err, db)
      | Inr user \<Rightarrow>
          (case handler request context user db of
             (Inl err, db') \<Rightarrow> (withAuth_catch err, db')
           | (Inr res, db') \<Rightarrow> (res, db')))"

subsection \<open>Route handlers\<close>

text \<open>
  The path segment \<open>params.id\<close> is a JavaScript string, a list of UTF-16 code units;
  \<open>ascii\<close> gives the code units of an ASCII literal.
\<close>

definition ascii :: "string \<Rightarrow> nat list" where
  "ascii s = map of_char s"

text \<open>
  \<open>parseInt\<close> without a radix: leading white space and line terminators are skipped,
  a sign is read, a prefix \<open>0x\<close> or \<open>0X\<close> selects radix 16, and the longest run of
  digits is the number; \<open>None\<close> is \<open>NaN\<close>, the result when that run is empty,
  and only then. The number is kept exact, where JavaScript rounds it to a double from
  \<open>2^53\<close> on; an id that large is beyond the 32 bits of the \<open>id\<close> column.
\<close>

definition digit_of :: "nat \<Rightarrow> nat \<Rightarrow> nat option" where
  "digit_of radix c =
     (case (if 48 \<le> c \<and> c \<le> 57 then Some (c - 48)
            else if 97 \<le> c \<and> c \<le> 122 then Some (c - 87)
            else if 65 \<le> c \<and> c \<le> 90 then Some (c - 55)
            else None) of
        None \<Rightarrow> None
      | Some n \<Rightarrow> if n < radix then Some n else None)"

fun digits :: "nat \<Rightarrow> nat list \<Rightarrow> nat option \<Rightarrow> nat option" where
  "digits radix [] acc = acc"
| "digits radix (c # cs) acc =
     (case digit_of radix c of
        None \<Rightarrow> acc
      | Some n \<Rightarrow> digits radix cs (Some (radix * (case acc of None \<Rightarrow> 0 | Some a \<Rightarrow> a) + n)))"

text \<open>
  The white space of \<open>parseInt\<close>: TAB, LF, VT, FF, CR, the space, the no-break space,
  the other space separators of Unicode, the line and paragraph separators and the
  byte order mark.
\<close>

definition is_white_space :: "nat \<Rightarrow> bool" where
  "is_white_space c \<longleftrightarrow>
     c \<in> set [0x09, 0x0A, 0x0B, 0x0C, 0x0D, 0x20, 0xA0, 0x1680, 0x2028, 0x2029, 0x202F,
              0x205F, 0x3000, 0xFEFF] \<or>
     (0x2000 \<le> c \<and> c \<le> 0x200A)"

definition parseInt :: "nat list \<Rightarrow> int option" where
  "parseInt str =
     (let s = dropWhile is_white_space str;
          negative = (take 1 s = ascii ''-'');
          s1 = (if take 1 s = ascii ''-'' \<or> take 1 s = ascii ''+'' then drop 1 s else s);
          hex = (take 2 s1 = ascii ''0x'' \<or> take 2 s1 = ascii ''0X'');
          magnitude = (if hex then digits 16 (drop 2 s1) None else digits 10 s1 None)
      in case magnitude of
           None \<Rightarrow> None
         | Some n \<Rightarrow> Some (if negative then - int n else int n))"

text \<open>
  The path segments on which \<open>parseInt\<close> finds a number, told from their code units
  alone: after the leading white space and one sign, either a decimal digit that does
  not open a prefix \<open>0x\<close> or \<open>0X\<close>, or such a prefix followed by a hexadecimal
  digit. That these are the segments on which \<open>parseInt\<close> does not give \<open>NaN\<close> is
  proved below.
\<close>

definition is_decimal_digit :: "nat \<Rightarrow> bool" where
  "is_decimal_digit c \<longleftrightarrow> 48 \<le> c \<and> c \<le> 57"

definition is_hex_digit :: "nat \<Rightarrow> bool" where
  "is_hex_digit c \<longleftrightarrow> 48 \<le> c \<and> c \<le> 57 \<or> 97 \<le> c \<and> c \<le> 102 \<or> 65 \<le> c \<and> c \<le> 70"

fun unsigned_integer_prefix :: "nat list \<Rightarrow> bool" where
  "unsigned_integer_prefix [] = False"
| "unsigned_integer_prefix [c] = is_decimal_digit c"
| "unsigned_integer_prefix [c, x] =
     (if c = 48 \<and> (x = 120 \<or> x = 88) then False else is_decimal_digit c)"
| "unsigned_integer_prefix (c # x # d # rest) =
     (if c = 48 \<and> (x = 120 \<or> x = 88) then is_hex_digit d else is_decimal_digit c)"

fun signed_integer_prefix :: "nat list \<Rightarrow> bool" where
  "signed_integer_prefix [] = False"
| "signed_integer_prefix (c # cs) =
     (if c = 45 \<or> c = 43 then unsigned_integer_prefix cs
      else unsigned_integer_prefix (c # cs))"

definition integer_prefix :: "nat list \<Rightarrow> bool" where
  "integer_prefix str = signed_integer_prefix (dropWhile is_white_space str)"

text \<open>
  The \<open>catch\<close> of the item handlers: an \<open>AppError\<close> answers with its message and its
  status code, any other exception answers 500 with a fixed message.
\<close>

definition route_catch :: "error \<Rightarrow> response" where
  "route_catch err =
     (case err of
        AppError kind m \<Rightarrow> \<lparr>status = statusCode kind, body = Error_body m\<rparr>
      | JsError m \<Rightarrow> internal_server_error)"

definition invalid_item_id :: response where
  "invalid_item_id = \<lparr>status = 400, body = Error_body ''Invalid item ID''\<rparr>"

definition GET_item_handler ::
  "unit request \<Rightarrow> nat list \<Rightarrow> User \<Rightarrow> database \<Rightarrow> (error + response) \<times> database" where
  "GET_item_handler request ident user db =
     (case parseInt ident of
        None \<Rightarrow> (Inr invalid_item_id, db)
      | Some itemId \<Rightarrow>
          (case getItem db itemId (user_id user) of
             Inl err \<Rightarrow> (Inr (route_catch err), db)
           | Inr item \<Rightarrow>
               (Inr \<lparr>status = 200,
                     body = Item_body ''Grocery item retrieved successfully'' item\<rparr>, db)))"

definition PUT_item_handler ::
  "UpdateGroceryItemRequest request \<Rightarrow> nat list \<Rightarrow> User \<Rightarrow> database
     \<Rightarrow> (error + response) \<times> database" where
  "PUT_item_handler request ident user db =
     (case parseInt ident of
        None \<Rightarrow> (Inr invalid_item_id, db)
      | Some itemId \<Rightarrow>
          (case json request of
             None \<Rightarrow> (Inr (route_catch (JsError ''Unexpected token in JSON'')), db)
           | Some patch \<Rightarrow>
               (case updateItem db itemId (user_id user) patch of
                  (Inl err, db') \<Rightarrow> (Inr (route_catch err), db')
                | (Inr item, db') \<Rightarrow>
                    (Inr \<lparr>status = 200,
                          body = Item_body ''Grocery item updated successfully'' item\<rparr>, db'))))"

definition DELETE_item_handler ::
  "unit request \<Rightarrow> nat list \<Rightarrow> User \<Rightarrow> database \<Rightarrow> (error + response) \<times> database" where
  "DELETE_item_handler request ident user db =
     (case parseInt ident of
        None \<Rightarrow> (Inr invalid_item_id, db)
      | Some itemId \<Rightarrow>
          (case deleteItem db itemId (user_id user) of
             (Inl err, db') \<Rightarrow> (Inr (route_catch err), db')
           | (Inr _, db') \<Rightarrow>
               (Inr \<lparr>status = 200,
                     body = Message_body ''Grocery item deleted successfully''\<rparr>, db')))"

definition GET_item :: "env \<Rightarrow> unit request \<Rightarrow> nat list \<Rightarrow> database \<Rightarrow> response \<times> database" where
  "GET_item e = withAuth e GET_item_handler"

definition PUT_item ::
  "env \<Rightarrow> UpdateGroceryItemRequest request \<Rightarrow> nat list \<Rightarrow> database
     \<Rightarrow> response \<times> database" where
  "PUT_item e = withAuth e PUT_item_handler"

definition DELETE_item :: "env \<Rightarrow> unit request \<Rightarrow> nat list \<Rightarrow> database \<Rightarrow> response \<times> database" where
  "DELETE_item e = withAuth e DELETE_item_handler"

text \<open>
  The collection route reads the query parameters \<open>category\<close>, \<open>isPurchased\<close> and
  \<open>search\<close> when they are truthy; it reads no \<open>store\<close> parameter.
\<close>

definition parse_filters :: "(string \<Rightarrow> string option) \<Rightarrow> GroceryItemFilters" where
  "parse_filters params =
     \<lparr>f_store = None,
      f_category = (if truthy (params ''category'') then params ''category'' else None),
      f_isPurchased =
        (if truthy (params ''isPurchased'')
         then Some (params ''isPurchased'' = Some ''true'') else None),
      f_search = (if truthy (params ''search'') then params ''search'' else None)\<rparr>"

definition GET_items_handler ::
  "(string \<Rightarrow> string \<Rightarrow> bool) \<Rightarrow> unit request \<Rightarrow> unit \<Rightarrow> User \<Rightarrow> database
     \<Rightarrow> (error + response) \<times> database" where
  "GET_items_handler ilike request context user db =
     (case getUserItems ilike db (user_id user) (Some (parse_filters (searchParams request))) of
        Inl err \<Rightarrow> (Inr (route_catch err), db)
      | Inr items \<Rightarrow>
          (Inr \<lparr>status = 200,
                body = Items_body ''Grocery items retrieved successfully'' items (length items)\<rparr>,
           db))"

definition GET_items ::
  "env \<Rightarrow> (string \<Rightarrow> string \<Rightarrow> bool) \<Rightarrow> unit request \<Rightarrow> unit \<Rightarrow> database
     \<Rightarrow> response \<times> database" where
  "GET_items e ilike = withAuth e (GET_items_handler ilike)"

section \<open>Well-formed stores\<close>

text \<open>
  What the schema guarantees of every state of the store: \<open>id\<close> is a primary key fed
  by a sequence that starts at 1, ids are 32-bit integers, every row satisfies the
  column constraints, and \<open>email\<close> is unique.
\<close>

definition items_ok :: "database \<Rightarrow> bool" where
  "items_ok db \<longleftrightarrow>
     0 < grocery_items_id_seq db \<and>
     distinct (map row_id (grocery_items db)) \<and>
     (\<forall>r \<in> set (grocery_items db).
        0 < row_id r \<and> row_id r < grocery_items_id_seq db \<and> int4_ok (row_id r) \<and>
        int4_ok (row_user_id r) \<and> columns_ok r)"

definition users_ok :: "database \<Rightarrow> bool" where
  "users_ok db \<longleftrightarrow>
     distinct (map urow_id (users db)) \<and>
     distinct (map urow_email (users db)) \<and>
     (\<forall>u \<in> set (users db). 0 < urow_id u)"

text \<open>Time passing between two statements.\<close>

definition tick :: "database \<Rightarrow> database" where
  "tick db = db\<lparr>current_timestamp := current_timestamp db + 1\<rparr>"

section \<open>Concrete states and requests\<close>

text \<open>
  A store with two users, Alice (id 1) and Bob (id 2), and one item of Alice's; an
  environment at second 150 whose token library decodes a handful of tokens, two of
  them signed with another secret than the server's, and whose password comparison
  accepts the hash \<open>hash:\<close> followed by the password.
\<close>

definition alice_row :: user_row where
  "alice_row =
     \<lparr>urow_id = 1, urow_email = ''alice@example.com'',
      urow_password_hash = ''hash:wonderland'', urow_created_at = 1, urow_updated_at = 1\<rparr>"

definition bob_row :: user_row where
  "bob_row =
     \<lparr>urow_id = 2, urow_email = ''bob@example.com'',
      urow_password_hash = ''hash:builder'', urow_created_at = 2, urow_updated_at = 2\<rparr>"

definition milk_row :: grocery_row where
  "milk_row =
     \<lparr>row_id = 1, row_user_id = 1, row_name = ''Milk'', row_quantity = 2,
      row_store = None, row_category = None, row_notes = None, row_is_purchased = False,
      row_created_at = 5, row_updated_at = 5\<rparr>"

definition demo_db :: database where
  "demo_db =
     \<lparr>users = [alice_row, bob_row], grocery_items = [milk_row],
      users_id_seq = 3, grocery_items_id_seq = 2, current_timestamp = 10\<rparr>"

definition empty_list_db :: database where
  "empty_list_db =
     \<lparr>users = [alice_row, bob_row], grocery_items = [],
      users_id_seq = 3, grocery_items_id_seq = 1, current_timestamp = 10\<rparr>"

definition demo_token :: "int \<Rightarrow> string \<Rightarrow> nat \<Rightarrow> decoded_token" where
  "demo_token userId email exp =
     \<lparr>token_payload = \<lparr>jwt_userId = userId, jwt_email = email\<rparr>, token_nbf = None,
      token_exp = Some exp\<rparr>"

definition demo_jwt_decode :: "string \<Rightarrow> decoded_token option" where
  "demo_jwt_decode token =
     (if token = ''alice-token'' then Some (demo_token 1 ''alice@example.com'' 200)
      else if token = ''bob-token'' then Some (demo_token 2 ''bob@example.com'' 200)
      else if token = ''carol-token'' then Some (demo_token 7 ''carol@example.com'' 200)
      else if token = ''old-token'' then Some (demo_token 1 ''alice@example.com'' 120)
      else if token = ''edge-token'' then Some (demo_token 1 ''alice@example.com'' 150)
      else if token = ''forged-token'' then Some (demo_token 1 ''alice@example.com'' 200)
      else if token = ''old-forged-token'' then Some (demo_token 1 ''alice@example.com'' 120)
      else None)"

definition demo_jws_verify :: "string \<Rightarrow> string \<Rightarrow> bool" where
  "demo_jws_verify token secret \<longleftrightarrow>
     (if token = ''forged-token'' \<or> token = ''old-forged-token''
      then secret = ''another-secret'' else secret = ''s3cret'')"

definition demo_jwt_sign :: "JWTPayload \<Rightarrow> string \<Rightarrow> string \<Rightarrow> string" where
  "demo_jwt_sign payload secret expiresIn = jwt_email payload @ ''/'' @ expiresIn"

definition demo_bcrypt_compare :: "string \<Rightarrow> string \<Rightarrow> bool" where
  "demo_bcrypt_compare password hash \<longleftrightarrow> hash = ''hash:'' @ password"

definition demo_zod_email :: "string \<Rightarrow> bool" where
  "demo_zod_email s \<longleftrightarrow> CHR ''@'' \<in> set s"

definition demo_env :: env where
  "demo_env =
     \<lparr>jwt_sign = demo_jwt_sign, jwt_decode = demo_jwt_decode,
      jws_verify = demo_jws_verify, clock = 150,
      bcrypt_compare = demo_bcrypt_compare, zod_email = demo_zod_email,
      jwtSecret = ''s3cret'', jwtExpiresIn = ''24h'', refreshTokenExpiresIn = ''7d''\<rparr>"

definition no_params :: "string \<Rightarrow> string option" where
  "no_params key = None"

definition bearer :: "string \<Rightarrow> 'b option \<Rightarrow> 'b request" where
  "bearer token payload =
     \<lparr>authorization = Some (''Bearer '' @ token), searchParams = no_params, json = payload\<rparr>"

definition anonymous :: "'b option \<Rightarrow> 'b request" where
  "anonymous payload = \<lparr>authorization = None, searchParams = no_params, json = payload\<rparr>"

definition empty_patch :: UpdateGroceryItemRequest where
  "empty_patch =
     \<lparr>u_name = None, u_quantity = None, u_store = None, u_category = None,
      u_notes = None, u_isPurchased = None\<rparr>"

definition store_only :: "string \<Rightarrow> UpdateGroceryItemRequest" where
  "store_only s = empty_patch\<lparr>u_store := Some s\<rparr>"

definition walmart_milk :: CreateGroceryItemRequest where
  "walmart_milk =
     \<lparr>c_name = ''Milk'', c_quantity = Some 2, c_store = Some ''Walmart'',
      c_category = Some ''Dairy'', c_notes = Some ''2% milk''\<rparr>"

definition walmart_milk_view :: GroceryItemResponse where
  "walmart_milk_view =
     \<lparr>resp_id = 1, resp_name = ''Milk'', resp_quantity = 2, resp_store = None,
      resp_category = Some ''Dairy'', resp_notes = Some ''2% milk'',
      resp_isPurchased = False, resp_createdAt = 10, resp_updatedAt = 10\<rparr>"

definition milk_view :: GroceryItemResponse where
  "milk_view =
     \<lparr>resp_id = 1, resp_name = ''Milk'', resp_quantity = 2, resp_store = None,
      resp_category = None, resp_notes = None, resp_isPurchased = False,
      resp_createdAt = 5, resp_updatedAt = 5\<rparr>"

text \<open>A handler that empties the item table, to see whether a wrapper has called it.\<close>

definition wipe_handler ::
  "unit request \<Rightarrow> string \<Rightarrow> User \<Rightarrow> database \<Rightarrow> (error + response) \<times> database" where
  "wipe_handler request context user db =
     (Inr \<lparr>status = 200, body = Message_body ''wiped''\<rparr>, db\<lparr>grocery_items := []\<rparr>)"

text \<open>The three items of the filter example, created one after the other by Alice.\<close>

definition item_AX :: CreateGroceryItemRequest where
  "item_AX =
     \<lparr>c_name = ''Milk'', c_quantity = None, c_store = Some ''A'', c_category = Some ''X'',
      c_notes = None\<rparr>"

definition item_AY :: CreateGroceryItemRequest where
  "item_AY =
     \<lparr>c_name = ''Bread'', c_quantity = None, c_store = Some ''A'', c_category = Some ''Y'',
      c_notes = None\<rparr>"

definition item_BX :: CreateGroceryItemRequest where
  "item_BX =
     \<lparr>c_name = ''Eggs'', c_quantity = None, c_store = Some ''B'', c_category = Some ''X'',
      c_notes = None\<rparr>"

definition three_items_db :: database where
  "three_items_db =
     snd (createItem
            (tick (snd (createItem (tick (snd (createItem empty_list_db 1 item_AX))) 1 item_AY)))
            1 item_BX)"

definition filters_AX :: GroceryItemFilters where
  "filters_AX =
     \<lparr>f_store = Some ''A'', f_category = Some ''X'', f_isPurchased = None, f_search = None\<rparr>"

definition params_AX :: "string \<Rightarrow> string option" where
  "params_AX key =
     (if key = ''store'' then Some ''A'' else if key = ''category'' then Some ''X'' else None)"

definition view_AX :: GroceryItemResponse where
  "view_AX =
     \<lparr>resp_id = 1, resp_name = ''Milk'', resp_quantity = 1, resp_store = None,
      resp_category = Some ''X'', resp_notes = None, resp_isPurchased = False,
      resp_createdAt = 10, resp_updatedAt = 10\<rparr>"

definition view_BX :: GroceryItemResponse where
  "view_BX =
     \<lparr>resp_id = 3, resp_name = ''Eggs'', resp_quantity = 1, resp_store = None,
      resp_category = Some ''X'', resp_notes = None, resp_isPurchased = False,
      resp_createdAt = 12, resp_updatedAt = 12\<rparr>"

definition costco_patch :: UpdateGroceryItemRequest where
  "costco_patch = empty_patch\<lparr>u_quantity := Some 3, u_store := Some ''Costco''\<rparr>"

section \<open>The merge of a patch\<close>

text \<open>
  The row a partial update is to produce from a row and a patch, over the five columns
  of the \<open>SET\<close> clause: a field of the patch that is present replaces the column, an
  absent one leaves it, and \<open>updated_at\<close> is refreshed.
\<close>

definition merged :: "database \<Rightarrow> UpdateGroceryItemRequest \<Rightarrow> grocery_row \<Rightarrow> grocery_row" where
  "merged db p r =
     r\<lparr>row_name := (case u_name p of None \<Rightarrow> row_name r | Some v \<Rightarrow> v),
       row_quantity := (case u_quantity p of None \<Rightarrow> row_quantity r | Some v \<Rightarrow> v),
       row_category := (case u_category p of None \<Rightarrow> row_category r | Some v \<Rightarrow> Some v),
       row_notes := (case u_notes p of None \<Rightarrow> row_notes r | Some v \<Rightarrow> Some v),
       row_is_purchased :=
         (case u_isPurchased p of None \<Rightarrow> row_is_purchased r | Some v \<Rightarrow> v),
       row_updated_at := current_timestamp db\<rparr>"

section \<open>Validation lemmas\<close>

lemma issue_empty: "issue b m = [] \<longleftrightarrow> \<not> b"
  by (simp add: issue_def)

lemma opt_issue_empty:
  "opt_issue v bad m = [] \<longleftrightarrow> (case v of None \<Rightarrow> True | Some x \<Rightarrow> \<not> bad x)"
  by (simp add: opt_issue_def issue_def split: option.splits)

lemma validate_Inr: "validateRequestBody schema d = Inr v \<longleftrightarrow> schema d = Inr v"
  by (simp add: validateRequestBody_def split: sum.splits)

lemma id_valid: "0 < i \<Longrightarrow> validateRequestBody idSchema i = Inr i"
  by (simp add: validateRequestBody_def idSchema_def)

lemma or_null_length: "varchar_ok n v \<Longrightarrow> varchar_ok n (or_null v)"
  by (simp add: varchar_ok_def or_null_def split: option.splits)

text \<open>An input that passes \<open>createGroceryItemSchema\<close> satisfies the column constraints.\<close>

lemma create_schema_Inr:
  assumes "validateRequestBody createGroceryItemSchema d = Inr v"
  shows "v = d\<lparr>c_quantity := Some (case c_quantity d of None \<Rightarrow> 1 | Some q \<Rightarrow> q)\<rparr>"
    and "c_name d \<noteq> []" and "length (c_name d) \<le> 255"
    and "0 < (case c_quantity d of None \<Rightarrow> 1 | Some q \<Rightarrow> q)"
    and "varchar_ok 255 (c_store d)"
    and "varchar_ok 100 (c_category d)"
    and "varchar_ok 1000 (c_notes d)"
proof -
  have parsed: "createGroceryItemSchema d = Inr v"
    using assms by (simp add: validate_Inr)
  then have clean:
    "\<not> length (c_name d) < 1" "\<not> length (c_name d) > 255"
    "case c_quantity d of None \<Rightarrow> True | Some q \<Rightarrow> \<not> q < 1"
    "case c_store d of None \<Rightarrow> True | Some s \<Rightarrow> \<not> length s > 255"
    "case c_category d of None \<Rightarrow> True | Some s \<Rightarrow> \<not> length s > 100"
    "case c_notes d of None \<Rightarrow> True | Some s \<Rightarrow> \<not> length s > 1000"
    by (simp_all add: createGroceryItemSchema_def Let_def issue_empty opt_issue_empty
        split: if_splits)
  show "v = d\<lparr>c_quantity := Some (case c_quantity d of None \<Rightarrow> 1 | Some q \<Rightarrow> q)\<rparr>"
    using parsed by (simp add: createGroceryItemSchema_def Let_def split: if_splits)
  show "c_name d \<noteq> []" using clean(1) by simp
  show "length (c_name d) \<le> 255" using clean(2) by simp
  show "0 < (case c_quantity d of None \<Rightarrow> 1 | Some q \<Rightarrow> q)"
    using clean(3) by (simp split: option.splits)
  show "varchar_ok 255 (c_store d)"
    using clean(4) by (simp add: varchar_ok_def split: option.splits)
  show "varchar_ok 100 (c_category d)"
    using clean(5) by (simp add: varchar_ok_def split: option.splits)
  show "varchar_ok 1000 (c_notes d)"
    using clean(6) by (simp add: varchar_ok_def split: option.splits)
qed

section \<open>The store column\<close>

lemma create_ignores_store:
  "item_repo_create db uid (d\<lparr>c_store := s\<rparr>) = item_repo_create db uid d"
  by (simp add: item_repo_create_def)

lemma create_store_column:
  "map row_store (grocery_items (snd (item_repo_create db uid d))) =
     map row_store (grocery_items db) @
       (case fst (item_repo_create db uid d) of Inl _ \<Rightarrow> [] | Inr _ \<Rightarrow> [None])"
  by (simp add: item_repo_create_def Let_def)

lemma updateFields_ignores_store: "updateFields (p\<lparr>u_store := s\<rparr>) = updateFields p"
  by (simp add: updateFields_def)

lemma update_ignores_store:
  "item_repo_update db i uid (p\<lparr>u_store := s\<rparr>) = item_repo_update db i uid p"
  by (simp add: item_repo_update_def updateFields_ignores_store)

lemma assign_store: "row_store (assign a r) = row_store r"
  by (cases a) simp_all

lemma fold_assign_store: "row_store (fold assign as r) = row_store r"
  by (induction as arbitrary: r) (simp_all add: assign_store)

lemma set_clause_store: "row_store (set_clause db as r) = row_store r"
  by (simp add: set_clause_def fold_assign_store)

lemma update_store_column:
  "map row_store (grocery_items (snd (item_repo_update db i uid p))) =
     map row_store (grocery_items db)"
  by (auto simp: item_repo_update_def Let_def set_clause_store split: list.splits)

lemma delete_keeps_rows:
  "set (grocery_items (snd (item_repo_delete db i uid))) \<subseteq> set (grocery_items db)"
  by (auto simp: item_repo_delete_def Let_def)

lemma store_only_valid:
  "length s \<le> 255 \<Longrightarrow>
   validateRequestBody updateGroceryItemSchema (store_only s) = Inr (store_only s)"
  by (simp add: validateRequestBody_def updateGroceryItemSchema_def store_only_def
      empty_patch_def opt_issue_def issue_def keys_present_def)

lemma store_only_update:
  assumes "0 < i" and "length s \<le> 255"
  shows "updateItem db i uid (store_only s) =
           (Inl (AppError DatabaseError ''No fields to update''), db)"
proof -
  have no_fields: "updateFields (store_only s) = []"
    by (simp add: updateFields_def store_only_def empty_patch_def)
  have repo: "item_repo_update db i uid (store_only s) =
                (Inl (AppError DatabaseError ''No fields to update''), db)"
    by (simp add: item_repo_update_def Let_def no_fields)
  show ?thesis
    by (simp add: updateItem_def id_valid [OF assms(1)] store_only_valid [OF assms(2)] repo)
qed

text \<open>
  Claim C10. No repository operation writes the \<open>store\<close> column: \<open>create\<close> gives the
  same result whatever \<open>store\<close> the input carries and the row it inserts has none,
  \<open>update\<close> gives the same result whatever \<open>store\<close> the patch carries and leaves the
  column of every row as it was, and \<open>delete\<close> only removes rows. So an update whose
  patch holds \<open>store\<close> alone (of at most 255 characters, for an id that is positive)
  passes the validation of the service, and the repository then throws
  \<open>DatabaseError('No fields to update')\<close> and the store stays as it was.
\<close>

theorem store_never_written:
  "item_repo_create db uid (d\<lparr>c_store := s\<rparr>) = item_repo_create db uid d \<and>
   map row_store (grocery_items (snd (item_repo_create db uid d))) =
     map row_store (grocery_items db) @
       (case fst (item_repo_create db uid d) of Inl _ \<Rightarrow> [] | Inr _ \<Rightarrow> [None]) \<and>
   item_repo_update db i uid (p\<lparr>u_store := s\<rparr>) = item_repo_update db i uid p \<and>
   map row_store (grocery_items (snd (item_repo_update db i uid p))) =
     map row_store (grocery_items db) \<and>
   set (grocery_items (snd (item_repo_delete db i uid))) \<subseteq> set (grocery_items db) \<and>
   (0 < i \<and> length st \<le> 255 \<longrightarrow>
      validateRequestBody updateGroceryItemSchema (store_only st) = Inr (store_only st) \<and>
      updateItem db i uid (store_only st) =
        (Inl (AppError DatabaseError ''No fields to update''), db))"
  by (simp add: create_ignores_store create_store_column update_ignores_store
      update_store_column delete_keeps_rows store_only_valid store_only_update)

theorem store_never_written_witness:
  "(0::int) < 1 \<and> length ''Target'' \<le> 255 \<and>
   validateRequestBody updateGroceryItemSchema (store_only ''Target'')
     = Inr (store_only ''Target'') \<and>
   updateItem demo_db 1 1 (store_only ''Target'') =
     (Inl (AppError DatabaseError ''No fields to update''), demo_db)"
  using store_never_written [where db = demo_db and i = 1 and uid = 1 and st = "''Target''"]
  by simp

section \<open>The item table stays well-formed\<close>

text \<open>
  \<open>items_ok\<close> holds of the empty table and is kept by every statement of the item
  repository and by the passing of time, so it holds of every state the service reaches.
\<close>

lemma assign_id: "row_id (assign a r) = row_id r" "row_user_id (assign a r) = row_user_id r"
  by (cases a; simp)+

lemma fold_assign_id:
  "row_id (fold assign as r) = row_id r" "row_user_id (fold assign as r) = row_user_id r"
  by (induction as arbitrary: r) (simp_all add: assign_id)

lemma set_clause_id:
  "row_id (set_clause db as r) = row_id r" "row_user_id (set_clause db as r) = row_user_id r"
  by (simp_all add: set_clause_def fold_assign_id)

lemma items_ok_initial:
  "items_ok \<lparr>users = us, grocery_items = [], users_id_seq = n, grocery_items_id_seq = 1,
     current_timestamp = t\<rparr>"
  by (simp add: items_ok_def)

lemma items_ok_tick: "items_ok db \<Longrightarrow> items_ok (tick db)"
  by (simp add: items_ok_def tick_def)

lemma items_ok_seq:
  "items_ok db \<Longrightarrow> items_ok (db\<lparr>grocery_items_id_seq := grocery_items_id_seq db + 1\<rparr>)"
  by (auto simp: items_ok_def)

lemma items_ok_insert:
  assumes "items_ok db" and "insert_ok db row" and "row_id row = grocery_items_id_seq db"
    and "int4_ok (row_id row)" and "int4_ok (row_user_id row)"
  shows "items_ok (db\<lparr>grocery_items := grocery_items db @ [row],
                      grocery_items_id_seq := grocery_items_id_seq db + 1\<rparr>)"
  using assms by (auto simp: items_ok_def insert_ok_def)

lemma items_ok_create:
  assumes "items_ok db"
  shows "items_ok (snd (item_repo_create db uid d))"
proof -
  let ?row = "\<lparr>row_id = grocery_items_id_seq db, row_user_id = uid,
                 row_name = c_name d,
                 row_quantity = (case c_quantity d of None \<Rightarrow> 1 | Some q \<Rightarrow> q),
                 row_store = None, row_category = or_null (c_category d),
                 row_notes = or_null (c_notes d), row_is_purchased = False,
                 row_created_at = current_timestamp db,
                 row_updated_at = current_timestamp db\<rparr>"
  have inserted: "insert_ok db ?row \<Longrightarrow> int4_ok uid \<Longrightarrow> int4_ok (grocery_items_id_seq db) \<Longrightarrow>
      items_ok (db\<lparr>grocery_items := grocery_items db @ [?row],
                   grocery_items_id_seq := grocery_items_id_seq db + 1\<rparr>)"
    using items_ok_insert [OF assms, of ?row] by simp
  show ?thesis
    using assms inserted items_ok_seq [OF assms]
    by (simp add: item_repo_create_def Let_def)
qed

lemma items_ok_update:
  assumes "items_ok db"
  shows "items_ok (snd (item_repo_update db i uid p))"
proof -
  let ?hit = "\<lambda>r. row_id r = i \<and> row_user_id r = uid"
  let ?upd = "\<lambda>r. if ?hit r then set_clause db (updateFields p) r else r"
  let ?db' = "db\<lparr>grocery_items := map ?upd (grocery_items db)\<rparr>"
  have ids: "map row_id (map ?upd (grocery_items db)) = map row_id (grocery_items db)"
    by (simp add: set_clause_id)
  have kept: "list_all columns_ok (map (set_clause db (updateFields p))
                (filter ?hit (grocery_items db))) \<Longrightarrow> items_ok ?db'"
    using assms ids
    by (auto simp: items_ok_def list_all_iff set_clause_id simp del: map_map)
  show ?thesis
    using assms kept
    by (auto simp: item_repo_update_def Let_def split: list.splits)
qed

lemma items_ok_delete:
  assumes "items_ok db"
  shows "items_ok (snd (item_repo_delete db i uid))"
  using assms by (auto simp: item_repo_delete_def Let_def items_ok_def distinct_map_filter)

section \<open>Ownership\<close>

lemma pk_unique:
  "distinct (map row_id rows) \<Longrightarrow> r \<in> set rows \<Longrightarrow> r' \<in> set rows \<Longrightarrow>
   row_id r = row_id r' \<Longrightarrow> r = r'"
  by (auto simp: distinct_map inj_on_def)

lemma no_hit_for_other_user:
  assumes "items_ok db" and "r \<in> set (grocery_items db)" and "row_user_id r \<noteq> b"
  shows "filter (\<lambda>x. row_id x = row_id r \<and> row_user_id x = b) (grocery_items db) = []"
proof -
  have "\<forall>x \<in> set (grocery_items db). \<not> (row_id x = row_id r \<and> row_user_id x = b)"
    using assms pk_unique [of "grocery_items db"] by (auto simp: items_ok_def)
  then show ?thesis by (simp add: filter_empty_conv)
qed

text \<open>
  What holds of ownership: an item of one user is not found by another user's \<open>get\<close>
  and \<open>delete\<close>, nor by an \<open>update\<close> whose patch sets one of the five columns of the
  \<open>SET\<close> clause with values that PostgreSQL accepts, and the store stays as it was.
\<close>

lemma get_by_other_user:
  assumes "items_ok db" and "r \<in> set (grocery_items db)" and "row_user_id r \<noteq> b"
    and "int4_ok b"
  shows "getItem db (row_id r) b = Inl not_found"
proof -
  have "0 < row_id r" and "int4_ok (row_id r)"
    using assms(1,2) by (simp_all add: items_ok_def)
  then show ?thesis
    using assms(4)
    by (simp add: getItem_def id_valid item_repo_findById_def
        no_hit_for_other_user [OF assms(1,2,3)])
qed

lemma delete_by_other_user:
  assumes "items_ok db" and "r \<in> set (grocery_items db)" and "row_user_id r \<noteq> b"
    and "int4_ok b"
  shows "deleteItem db (row_id r) b = (Inl not_found, db)"
proof -
  have pos: "0 < row_id r" and range: "int4_ok (row_id r)"
    using assms(1,2) by (simp_all add: items_ok_def)
  have none: "\<forall>x \<in> set (grocery_items db). \<not> (row_id x = row_id r \<and> row_user_id x = b)"
    using no_hit_for_other_user [OF assms(1,2,3)] by (simp add: filter_empty_conv)
  have keep: "filter (\<lambda>x. row_id x = row_id r \<longrightarrow> row_user_id x \<noteq> b) (grocery_items db)
                = grocery_items db"
    using none by (simp add: filter_id_conv)
  show ?thesis
    using range assms(4)
    by (simp add: deleteItem_def id_valid [OF pos] item_repo_delete_def Let_def
        no_hit_for_other_user [OF assms(1,2,3)] keep)
qed

lemma update_by_other_user:
  assumes "items_ok db" and "r \<in> set (grocery_items db)" and "row_user_id r \<noteq> b"
    and "validateRequestBody updateGroceryItemSchema p = Inr p'"
    and "updateFields p' \<noteq> []"
    and "list_all assignment_ok (updateFields p')" and "int4_ok b"
  shows "updateItem db (row_id r) b p = (Inl not_found, db)"
proof -
  have pos: "0 < row_id r" and range: "int4_ok (row_id r)"
    using assms(1,2) by (simp_all add: items_ok_def)
  have repo: "item_repo_update db (row_id r) b p' = (Inl not_found, db)"
    using assms(5,6,7) range
    by (simp add: item_repo_update_def Let_def no_hit_for_other_user [OF assms(1,2,3)]
        not_found_def)
  show ?thesis
    by (simp add: updateItem_def id_valid [OF pos] assms(4) repo)
qed

text \<open>
  Claim C1. Ownership isolation says that \<open>get\<close>, \<open>delete\<close> and \<open>update\<close> with any valid
  non-empty patch, by a user who does not own the item, all fail with NotFoundError.
  Item 1 belongs to Alice (user 1). Bob (user 2) gets NotFoundError from \<open>get\<close> and
  \<open>delete\<close>, but his update with the valid patch that holds \<open>store\<close> alone fails with
  \<open>DatabaseError('No fields to update')\<close>, status 500, since the repository builds no
  assignment for \<open>store\<close>; the item stays as it was.
\<close>

theorem other_user_store_patch_is_database_error:
  "milk_row \<in> set (grocery_items demo_db) \<and>
   row_id milk_row = 1 \<and> row_user_id milk_row = 1 \<and>
   validateRequestBody updateGroceryItemSchema (store_only ''Target'')
     = Inr (store_only ''Target'') \<and>
   getItem demo_db 1 2 = Inl (AppError NotFoundError ''Grocery item not found'') \<and>
   deleteItem demo_db 1 2 = (Inl (AppError NotFoundError ''Grocery item not found''), demo_db) \<and>
   updateItem demo_db 1 2 (store_only ''Target'') =
     (Inl (AppError DatabaseError ''No fields to update''), demo_db) \<and>
   route_catch (AppError DatabaseError ''No fields to update'') =
     \<lparr>status = 500, body = Error_body ''No fields to update''\<rparr>"
proof -
  have ok: "items_ok demo_db"
    by (simp add: items_ok_def demo_db_def milk_row_def columns_ok_def varchar_ok_def
        int4_ok_def)
  have bob: "int4_ok 2"
    by (simp add: int4_ok_def)
  have mem: "milk_row \<in> set (grocery_items demo_db)"
    by (simp add: demo_db_def)
  have owner: "row_user_id milk_row \<noteq> 2" and ident: "row_id milk_row = 1"
    by (simp_all add: milk_row_def)
  have g: "getItem demo_db 1 2 = Inl not_found"
    using get_by_other_user [OF ok mem owner bob] by (simp add: ident)
  have d: "deleteItem demo_db 1 2 = (Inl not_found, demo_db)"
    using delete_by_other_user [OF ok mem owner bob] by (simp add: ident)
  have u: "updateItem demo_db 1 2 (store_only ''Target'') =
             (Inl (AppError DatabaseError ''No fields to update''), demo_db)"
    by (simp add: store_only_update)
  show ?thesis
    using mem g d u
    by (simp add: not_found_def store_only_valid route_catch_def) (simp add: milk_row_def)
qed

section \<open>Creating and reading back\<close>

text \<open>
  What holds of the round trip: in a well-formed store whose sequence is not exhausted,
  for every existing owner and every input that passes \<open>createGroceryItemSchema\<close>
  and holds a quantity and texts that PostgreSQL accepts, \<open>create\<close> succeeds and the
  \<open>get\<close> of the created id by the owner returns the very view \<open>create\<close> returned.
  In that view the name and the quantity (1 when omitted) are those of the input,
  category and notes are those of the input when they are not empty and \<open>null\<close>
  otherwise, and \<open>isPurchased\<close> is false. The view type has no owner id.
\<close>

lemma create_then_get:
  assumes ok: "items_ok db"
    and owner: "owner \<in> set (map urow_id (users db))"
    and valid: "validateRequestBody createGroceryItemSchema d = Inr parsed"
    and accepted: "int4_ok owner" "int4_ok (grocery_items_id_seq db)"
      "int4_ok (case c_quantity d of None \<Rightarrow> 1 | Some q \<Rightarrow> q)"
      "text_ok (c_name d)" "opt_text_ok (c_category d)" "opt_text_ok (c_notes d)"
  shows "\<exists>v db'. createItem db owner d = (Inr v, db') \<and>
           getItem db' (resp_id v) owner = Inr v \<and>
           resp_name v = c_name d \<and>
           resp_quantity v = (case c_quantity d of None \<Rightarrow> 1 | Some q \<Rightarrow> q) \<and>
           resp_category v = or_null (c_category d) \<and>
           resp_notes v = or_null (c_notes d) \<and>
           resp_isPurchased v = False"
proof -
  define q where "q = (case c_quantity d of None \<Rightarrow> 1 | Some q \<Rightarrow> q)"
  define row where "row =
     \<lparr>row_id = grocery_items_id_seq db, row_user_id = owner, row_name = c_name d,
      row_quantity = q, row_store = None, row_category = or_null (c_category d),
      row_notes = or_null (c_notes d), row_is_purchased = False,
      row_created_at = current_timestamp db, row_updated_at = current_timestamp db\<rparr>"
  define db' where "db' = db\<lparr>grocery_items := grocery_items db @ [row],
     grocery_items_id_seq := grocery_items_id_seq db + 1\<rparr>"
  note facts = create_schema_Inr [OF valid]
  have parsed: "parsed = d\<lparr>c_quantity := Some q\<rparr>"
    using facts(1) by (simp add: q_def)
  have "columns_ok row"
    using facts(3,4) or_null_length [OF facts(6)]
    by (simp add: columns_ok_def row_def q_def varchar_ok_def)
  then have ins: "insert_ok db row"
    using owner by (simp add: insert_ok_def row_def)
  have texts: "opt_text_ok (or_null (c_category d))" "opt_text_ok (or_null (c_notes d))"
    using accepted(5,6) by (simp_all add: opt_text_ok_def or_null_def split: option.splits)
  have repo: "item_repo_create db owner parsed = (Inr (mapDbRowToGroceryItem row), db')"
    using ins accepted(1,2,3,4) texts
    by (simp add: item_repo_create_def Let_def parsed row_def db'_def q_def)
  have created:
    "createItem db owner d = (Inr (toGroceryItemResponse (mapDbRowToGroceryItem row)), db')"
    by (simp add: createItem_def valid repo)
  have fresh: "filter (\<lambda>r. row_id r = grocery_items_id_seq db \<and> row_user_id r = owner)
                 (grocery_items db) = []"
    using ok by (auto simp: items_ok_def filter_empty_conv)
  have pos: "0 < grocery_items_id_seq db" using ok by (simp add: items_ok_def)
  have found: "item_repo_findById db' (grocery_items_id_seq db) owner
                 = Inr (Some (mapDbRowToGroceryItem row))"
    using accepted(1,2)
    by (simp add: item_repo_findById_def db'_def fresh) (simp add: row_def)
  have got: "getItem db' (grocery_items_id_seq db) owner
               = Inr (toGroceryItemResponse (mapDbRowToGroceryItem row))"
    by (simp add: getItem_def id_valid [OF pos] found)
  let ?v = "toGroceryItemResponse (mapDbRowToGroceryItem row)"
  have fields: "resp_id ?v = grocery_items_id_seq db" "resp_name ?v = c_name d"
    "resp_quantity ?v = q" "resp_category ?v = or_null (c_category d)"
    "resp_notes ?v = or_null (c_notes d)" "resp_isPurchased ?v = False"
    by (simp_all add: toGroceryItemResponse_def mapDbRowToGroceryItem_def row_def)
  have "createItem db owner d = (Inr ?v, db') \<and> getItem db' (resp_id ?v) owner = Inr ?v"
    using created got fields(1) by simp
  then show ?thesis
    using fields(2-6) unfolding q_def by blast
qed

text \<open>
  Claim C3. Round trip says that \<open>create\<close> followed by \<open>get\<close> returns a view equal to
  the created item on name, quantity, store, category, notes and isPurchased, also for
  inputs with a store. Alice creates an item from the valid input
  \<open>{name: Milk, quantity: 2, store: Walmart, category: Dairy, notes: 2% milk}\<close>. Both
  \<open>create\<close> and the \<open>get\<close> that follows return the same view, which agrees with the
  input on name, quantity, category and notes and has no store: the \<open>INSERT\<close> of the
  repository leaves the store of the input out.
\<close>

theorem round_trip_loses_store:
  "validateRequestBody createGroceryItemSchema walmart_milk = Inr walmart_milk \<and>
   c_store walmart_milk = Some ''Walmart'' \<and>
   fst (createItem empty_list_db 1 walmart_milk) = Inr walmart_milk_view \<and>
   getItem (snd (createItem empty_list_db 1 walmart_milk)) 1 1 = Inr walmart_milk_view \<and>
   resp_store walmart_milk_view = None"
  by (simp add: validateRequestBody_def createGroceryItemSchema_def walmart_milk_def
      issue_def opt_issue_def createItem_def item_repo_create_def insert_ok_def
      columns_ok_def varchar_ok_def or_null_def empty_list_db_def alice_row_def bob_row_def
      mapDbRowToGroceryItem_def toGroceryItemResponse_def walmart_milk_view_def
      getItem_def idSchema_def item_repo_findById_def int4_ok_def text_ok_def
      opt_text_ok_def)

section \<open>Listing with filters\<close>

lemma user_row_ids: "urow_id alice_row = 1" "urow_id bob_row = 2"
  by (simp_all add: alice_row_def bob_row_def)

lemma three_items_db_rows:
  "three_items_db =
     \<lparr>users = [alice_row, bob_row],
      grocery_items =
        [\<lparr>row_id = 1, row_user_id = 1, row_name = ''Milk'', row_quantity = 1,
           row_store = None, row_category = Some ''X'', row_notes = None,
           row_is_purchased = False, row_created_at = 10, row_updated_at = 10\<rparr>,
         \<lparr>row_id = 2, row_user_id = 1, row_name = ''Bread'', row_quantity = 1,
           row_store = None, row_category = Some ''Y'', row_notes = None,
           row_is_purchased = False, row_created_at = 11, row_updated_at = 11\<rparr>,
         \<lparr>row_id = 3, row_user_id = 1, row_name = ''Eggs'', row_quantity = 1,
           row_store = None, row_category = Some ''X'', row_notes = None,
           row_is_purchased = False, row_created_at = 12, row_updated_at = 12\<rparr>],
      users_id_seq = 3, grocery_items_id_seq = 4, current_timestamp = 12\<rparr>"
proof -
  note create_eval = validateRequestBody_def createGroceryItemSchema_def issue_def
    opt_issue_def createItem_def item_repo_create_def insert_ok_def columns_ok_def
    varchar_ok_def or_null_def tick_def Let_def user_row_ids int4_ok_def text_ok_def
    opt_text_ok_def
  let ?milk = "\<lparr>row_id = 1, row_user_id = 1, row_name = ''Milk'', row_quantity = 1,
           row_store = None, row_category = Some ''X'', row_notes = None,
           row_is_purchased = False, row_created_at = 10, row_updated_at = 10\<rparr>"
  let ?bread = "\<lparr>row_id = 2, row_user_id = 1, row_name = ''Bread'', row_quantity = 1,
           row_store = None, row_category = Some ''Y'', row_notes = None,
           row_is_purchased = False, row_created_at = 11, row_updated_at = 11\<rparr>"
  let ?db1 = "\<lparr>users = [alice_row, bob_row], grocery_items = [?milk],
      users_id_seq = 3, grocery_items_id_seq = 2, current_timestamp = 10\<rparr>"
  let ?db2 = "\<lparr>users = [alice_row, bob_row], grocery_items = [?milk, ?bread],
      users_id_seq = 3, grocery_items_id_seq = 3, current_timestamp = 11\<rparr>"
  have first: "snd (createItem empty_list_db 1 item_AX) = ?db1"
    by (simp add: item_AX_def empty_list_db_def create_eval)
  have second: "snd (createItem (tick ?db1) 1 item_AY) = ?db2"
    by (simp add: item_AY_def create_eval)
  show ?thesis
    unfolding three_items_db_def first second
    by (simp add: item_BX_def create_eval)
qed

text \<open>
  Claim C2. The filter example: Alice creates three items with (store, category)
  \<open>(A, X)\<close>, \<open>(A, Y)\<close> and \<open>(B, X)\<close> and lists hers with the filters store \<open>A\<close> and
  category \<open>X\<close>. The filters pass validation, and the list holds two items, the third
  and the first: the repository applies the category filter and no store filter (and
  the route reads no store parameter from the URL).
\<close>

theorem store_filter_not_applied:
  "validateRequestBody groceryItemFiltersSchema filters_AX = Inr filters_AX \<and>
   getUserItems ilike three_items_db 1 (Some filters_AX) = Inr [view_BX, view_AX] \<and>
   f_store (parse_filters params_AX) = None \<and>
   f_category (parse_filters params_AX) = Some ''X''"
proof -
  have valid: "validateRequestBody groceryItemFiltersSchema filters_AX = Inr filters_AX"
    by (simp add: validateRequestBody_def groceryItemFiltersSchema_def filters_AX_def
        opt_issue_def issue_def)
  have listed: "getUserItems ilike three_items_db 1 (Some filters_AX) = Inr [view_BX, view_AX]"
    by (simp add: getUserItems_def valid item_repo_findByUserId_def three_items_db_rows)
       (simp add: filters_where_def filters_AX_def truthy_def order_by_created_at_desc_def
        mapDbRowToGroceryItem_def toGroceryItemResponse_def view_AX_def view_BX_def
        int4_ok_def filters_params_ok_def opt_text_ok_def text_ok_def)
  have route: "f_store (parse_filters params_AX) = None"
    "f_category (parse_filters params_AX) = Some ''X''"
    by (simp_all add: parse_filters_def params_AX_def truthy_def)
  show ?thesis using valid listed route by simp
qed

section \<open>Partial update\<close>

lemma filter_pk:
  "distinct (map row_id rows) \<Longrightarrow> r \<in> set rows \<Longrightarrow>
   filter (\<lambda>x. row_id x = row_id r \<and> row_user_id x = row_user_id r) rows = [r]"
proof (induction rows)
  case Nil
  then show ?case by simp
next
  case (Cons a rows)
  show ?case
  proof (cases "a = r")
    case True
    have "\<forall>x \<in> set rows. row_id x \<noteq> row_id r"
      using Cons.prems(1) True by (auto simp: image_iff)
    then have "filter (\<lambda>x. row_id x = row_id r \<and> row_user_id x = row_user_id r) rows = []"
      by (simp add: filter_empty_conv)
    then show ?thesis using True by simp
  next
    case False
    then have mem: "r \<in> set rows" using Cons.prems(2) by simp
    then have "row_id a \<noteq> row_id r" using Cons.prems(1) by auto
    then show ?thesis using Cons.IH mem Cons.prems(1) by simp
  qed
qed

text \<open>A patch that passes \<open>updateGroceryItemSchema\<close> comes back as it is, within bounds.\<close>

lemma update_schema_Inr:
  assumes "validateRequestBody updateGroceryItemSchema p = Inr p'"
  shows "p' = p"
    and "case u_name p of None \<Rightarrow> True | Some s \<Rightarrow> s \<noteq> [] \<and> length s \<le> 255"
    and "case u_quantity p of None \<Rightarrow> True | Some q \<Rightarrow> 0 < q"
    and "varchar_ok 255 (u_store p)"
    and "varchar_ok 100 (u_category p)"
    and "varchar_ok 1000 (u_notes p)"
    and "0 < keys_present p"
proof -
  have parsed: "updateGroceryItemSchema p = Inr p'"
    using assms by (simp add: validate_Inr)
  then show same: "p' = p"
    by (simp add: updateGroceryItemSchema_def Let_def split: if_splits)
  have clean:
    "case u_name p of None \<Rightarrow> True | Some s \<Rightarrow> s \<noteq> []"
    "case u_name p of None \<Rightarrow> True | Some s \<Rightarrow> \<not> 255 < length s"
    "case u_quantity p of None \<Rightarrow> True | Some q \<Rightarrow> \<not> q < 1"
    "case u_store p of None \<Rightarrow> True | Some s \<Rightarrow> \<not> 255 < length s"
    "case u_category p of None \<Rightarrow> True | Some s \<Rightarrow> \<not> 100 < length s"
    "case u_notes p of None \<Rightarrow> True | Some s \<Rightarrow> \<not> 1000 < length s"
    "0 < keys_present p"
    using parsed [unfolded same]
    by (simp_all add: updateGroceryItemSchema_def Let_def issue_empty opt_issue_empty
        split: if_splits)
  show "case u_name p of None \<Rightarrow> True | Some s \<Rightarrow> s \<noteq> [] \<and> length s \<le> 255"
    using clean(1,2) by (simp split: option.splits)
  show "case u_quantity p of None \<Rightarrow> True | Some q \<Rightarrow> 0 < q"
    using clean(3) by (simp split: option.splits)
  show "varchar_ok 255 (u_store p)"
    using clean(4) by (simp add: varchar_ok_def split: option.splits)
  show "varchar_ok 100 (u_category p)"
    using clean(5) by (simp add: varchar_ok_def split: option.splits)
  show "varchar_ok 1000 (u_notes p)"
    using clean(6) by (simp add: varchar_ok_def split: option.splits)
  show "0 < keys_present p" by (rule clean(7))
qed

lemma set_clause_merged: "set_clause db (updateFields p) r = merged db p r"
  by (simp add: set_clause_def updateFields_def merged_def split: option.splits)

lemma merged_columns_ok:
  assumes "columns_ok r" and "validateRequestBody updateGroceryItemSchema p = Inr p'"
  shows "columns_ok (merged db p r)"
  using assms(1) update_schema_Inr(2,3,5) [OF assms(2)]
  by (simp add: columns_ok_def merged_def varchar_ok_def split: option.splits)

text \<open>
  What holds of the merge: the owner's update with a valid patch that sets one of the
  five columns, to values the database takes as parameters (no zero character in a text,
  a quantity within 32 bits), succeeds, returns the view of the merged row and replaces
  that row alone.
\<close>

lemma update_by_owner:
  assumes ok: "items_ok db" and mem: "r \<in> set (grocery_items db)"
    and valid: "validateRequestBody updateGroceryItemSchema p = Inr p'"
    and some: "updateFields p \<noteq> []"
    and params: "list_all assignment_ok (updateFields p)"
  shows "updateItem db (row_id r) (row_user_id r) p =
           (Inr (toGroceryItemResponse (mapDbRowToGroceryItem (merged db p r))),
            db\<lparr>grocery_items :=
                 map (\<lambda>x. if x = r then merged db p r else x) (grocery_items db)\<rparr>)"
proof -
  have pos: "0 < row_id r" and cols: "columns_ok r"
    and ids: "int4_ok (row_id r)" "int4_ok (row_user_id r)"
    and dist: "distinct (map row_id (grocery_items db))"
    using ok mem by (simp_all add: items_ok_def)
  have same: "p' = p" by (rule update_schema_Inr(1) [OF valid])
  have hit: "filter (\<lambda>x. row_id x = row_id r \<and> row_user_id x = row_user_id r)
               (grocery_items db) = [r]"
    by (rule filter_pk [OF dist mem])
  have only: "\<forall>x \<in> set (grocery_items db).
      (row_id x = row_id r \<and> row_user_id x = row_user_id r) = (x = r)"
    using pk_unique [OF dist _ mem] by auto
  have rows: "map (\<lambda>x. if row_id x = row_id r \<and> row_user_id x = row_user_id r
                       then set_clause db (updateFields p) x else x) (grocery_items db)
              = map (\<lambda>x. if x = r then merged db p r else x) (grocery_items db)"
    using only by (auto simp: set_clause_merged)
  have repo: "item_repo_update db (row_id r) (row_user_id r) p =
           (Inr (mapDbRowToGroceryItem (merged db p r)),
            db\<lparr>grocery_items :=
                 map (\<lambda>x. if x = r then merged db p r else x) (grocery_items db)\<rparr>)"
    using some merged_columns_ok [OF cols valid]
    by (simp add: item_repo_update_def Let_def hit rows set_clause_merged params ids)
  show ?thesis
    using valid by (simp add: updateItem_def id_valid [OF pos] same repo)
qed

text \<open>
  Claim C5. Partial-update merge says that an update changes exactly the fields
  present in the patch. Alice's item 1 is \<open>{name: Milk, quantity: 2}\<close> with no store.
  Her update with the valid patch \<open>{quantity: 3, store: Costco}\<close> succeeds and sets the
  quantity to 3, but the row's \<open>store\<close> column is still \<open>NULL\<close> and the view returned
  has no store: the field \<open>store\<close>, present in the patch, was not applied.
\<close>

theorem update_drops_store:
  "validateRequestBody updateGroceryItemSchema costco_patch = Inr costco_patch \<and>
   u_store costco_patch = Some ''Costco'' \<and>
   updateItem demo_db 1 1 costco_patch =
     (Inr \<lparr>resp_id = 1, resp_name = ''Milk'', resp_quantity = 3, resp_store = None,
           resp_category = None, resp_notes = None, resp_isPurchased = False,
           resp_createdAt = 5, resp_updatedAt = 10\<rparr>,
      demo_db\<lparr>grocery_items :=
                [milk_row\<lparr>row_quantity := 3, row_updated_at := 10\<rparr>]\<rparr>) \<and>
   row_store (milk_row\<lparr>row_quantity := 3, row_updated_at := 10\<rparr>) = None"
proof -
  have valid: "validateRequestBody updateGroceryItemSchema costco_patch = Inr costco_patch"
    by (simp add: validateRequestBody_def updateGroceryItemSchema_def costco_patch_def
        empty_patch_def opt_issue_def issue_def keys_present_def)
  have ok: "items_ok demo_db"
    by (simp add: items_ok_def demo_db_def milk_row_def columns_ok_def varchar_ok_def
        int4_ok_def)
  have rows: "grocery_items demo_db = [milk_row]"
    by (simp add: demo_db_def)
  have mem: "milk_row \<in> set (grocery_items demo_db)"
    by (simp add: rows)
  have some: "updateFields costco_patch \<noteq> []"
    by (simp add: updateFields_def costco_patch_def empty_patch_def)
  have params: "list_all assignment_ok (updateFields costco_patch)"
    by (simp add: updateFields_def costco_patch_def empty_patch_def int4_ok_def)
  have m: "merged demo_db costco_patch milk_row
             = milk_row\<lparr>row_quantity := 3, row_updated_at := 10\<rparr>"
    by (simp add: merged_def costco_patch_def empty_patch_def demo_db_def milk_row_def)
  have "updateItem demo_db (row_id milk_row) (row_user_id milk_row) costco_patch =
          (Inr (toGroceryItemResponse (mapDbRowToGroceryItem
                  (milk_row\<lparr>row_quantity := 3, row_updated_at := 10\<rparr>))),
           demo_db\<lparr>grocery_items :=
                     [milk_row\<lparr>row_quantity := 3, row_updated_at := 10\<rparr>]\<rparr>)"
    using update_by_owner [OF ok mem valid some params] by (simp add: m rows)
  then have upd: "updateItem demo_db 1 1 costco_patch =
     (Inr \<lparr>resp_id = 1, resp_name = ''Milk'', resp_quantity = 3, resp_store = None,
           resp_category = None, resp_notes = None, resp_isPurchased = False,
           resp_createdAt = 5, resp_updatedAt = 10\<rparr>,
      demo_db\<lparr>grocery_items :=
                [milk_row\<lparr>row_quantity := 3, row_updated_at := 10\<rparr>]\<rparr>)"
    by (simp add: milk_row_def toGroceryItemResponse_def mapDbRowToGroceryItem_def)
  show ?thesis
    using valid upd by (simp add: costco_patch_def) (simp add: milk_row_def)
qed

section \<open>The authentication gateway\<close>

lemma authenticate_catch_kind: "\<exists>m. authenticate_catch err = AppError AuthenticationError m"
  by (cases err) (auto simp: authenticate_catch_def split: error_kind.splits)

lemma authenticate_catch_id:
  "authenticate_catch (AppError AuthenticationError m) = AppError AuthenticationError m"
  by (simp add: authenticate_catch_def)

lemma extract_error_kind:
  "extractTokenFromHeader h = Inl err \<Longrightarrow> \<exists>m. err = AppError AuthenticationError m"
  by (auto simp: extractTokenFromHeader_def Let_def split: option.splits if_splits)

lemma verify_error_kind:
  "verifyToken e token = Inl err \<Longrightarrow> \<exists>m. err = AppError AuthenticationError m"
  by (auto simp: verifyToken_def split: jwt_result.splits jwt_exception.splits)

lemma authenticate_error_kind:
  "authenticate e db request = Inl err \<Longrightarrow> \<exists>m. err = AppError AuthenticationError m"
  using authenticate_catch_kind
  by (auto simp: authenticate_def split: sum.splits)

lemma authenticate_Inr:
  "authenticate e db request = Inr user \<longleftrightarrow>
     (\<exists>token payload. extractTokenFromHeader (authorization request) = Inr token \<and>
        verifyToken e token = Inr payload \<and>
        user_repo_findById db (jwt_userId payload) = Some user)"
  by (auto simp: authenticate_def validateUser_def split: sum.splits option.splits)

lemma authenticate_stale_subject:
  assumes "extractTokenFromHeader (authorization request) = Inr token"
    and "verifyToken e token = Inr payload"
    and "user_repo_findById db (jwt_userId payload) = None"
  shows "authenticate e db request = Inl (AppError AuthenticationError ''User not found'')"
  using assms by (simp add: authenticate_def validateUser_def authenticate_catch_def)

lemma withAuth_rejects:
  assumes "authenticate e db request = Inl err"
  shows "\<exists>m. err = AppError AuthenticationError m \<and>
           withAuth e handler request ctx db = (\<lparr>status = 401, body = Error_body m\<rparr>, db)"
proof -
  obtain m where "err = AppError AuthenticationError m"
    using authenticate_error_kind [OF assms] by blast
  then show ?thesis
    using assms by (simp add: withAuth_def withAuth_catch_def)
qed

lemma withAuth_dispatch:
  assumes "authenticate e db request = Inr user"
  shows "withAuth e handler request ctx db =
           (case handler request ctx user db of
              (Inl err, db') \<Rightarrow> (withAuth_catch err, db')
            | (Inr res, db') \<Rightarrow> (res, db'))"
  using assms by (simp add: withAuth_def)

lemma split_no_sep: "c \<notin> set s \<Longrightarrow> split c s = [s]"
  by (induction s) auto

lemma split_append: "c \<notin> set xs \<Longrightarrow> split c (xs @ c # ys) = xs # split c ys"
  by (induction xs) auto

lemma bearer_token:
  assumes "CHR '' '' \<notin> set token"
  shows "extractTokenFromHeader (authorization (bearer token b)) = Inr token"
proof -
  have word: "CHR '' '' \<notin> set ''Bearer''"
    by simp
  have "split CHR '' '' (''Bearer'' @ CHR '' '' # token) = [''Bearer'', token]"
    by (simp only: split_append [OF word] split_no_sep [OF assms])
  then show ?thesis
    by (simp add: extractTokenFromHeader_def bearer_def)
qed

lemmas demo_token_eval = verifyToken_def jwt_verify_def not_active_def expired_def
  demo_env_def demo_jwt_decode_def demo_jws_verify_def demo_token_def

lemma verify_demo:
  "verifyToken demo_env ''alice-token''
     = Inr \<lparr>jwt_userId = 1, jwt_email = ''alice@example.com''\<rparr>"
  "verifyToken demo_env ''carol-token''
     = Inr \<lparr>jwt_userId = 7, jwt_email = ''carol@example.com''\<rparr>"
  by (simp_all add: demo_token_eval)

lemma find_user_demo:
  "user_repo_findById demo_db 1 = Some (user_of_row alice_row)"
  "user_repo_findById demo_db 7 = None"
  by (simp_all add: user_repo_findById_def demo_db_def alice_row_def bob_row_def)

lemma authenticate_demo:
  "authenticate demo_env demo_db (bearer ''alice-token'' b) = Inr (user_of_row alice_row)"
  "authenticate demo_env demo_db (bearer ''carol-token'' b)
     = Inl (AppError AuthenticationError ''User not found'')"
  by (simp_all add: authenticate_def bearer_token verify_demo validateUser_def
      find_user_demo authenticate_catch_def)

lemma authenticate_anonymous:
  "authenticate e db (anonymous b)
     = Inl (AppError AuthenticationError ''Authorization header missing'')"
  by (simp add: authenticate_def anonymous_def extractTokenFromHeader_def
      authenticate_catch_def)

lemma validateUser_ignores_items:
  "validateUser (db\<lparr>grocery_items := rows\<rparr>) userId = validateUser db userId"
  by (simp add: validateUser_def user_repo_findById_def)

lemma authenticate_ignores_items:
  "authenticate e (db\<lparr>grocery_items := rows\<rparr>) request = authenticate e db request"
  by (simp add: authenticate_def validateUser_ignores_items split: sum.splits)

lemma parseInt_abc: "parseInt (ascii ''abc'') = None"
  by (simp add: parseInt_def ascii_def digit_of_def is_white_space_def)

lemma bearer_json: "json (bearer token payload) = payload"
  by (simp add: bearer_def)

text \<open>
  Claim C7. For every request to a protected route and every handler: when
  \<open>authenticate\<close> returns a user, the bearer token was extracted from the header and
  verified and its subject was found in the users table, that user is the one returned,
  and \<open>withAuth\<close> answers with what the handler does for that user; when \<open>authenticate\<close>
  fails, the error is an AuthenticationError and \<open>withAuth\<close> answers 401 with its
  message and leaves the store as it was, whatever the handler is, so the handler was
  not run; and a verified token whose subject is not in the users table fails with
  \<open>AuthenticationError('User not found')\<close> and is answered 401.
\<close>

theorem auth_gateway:
  "(authenticate e db request = Inr user \<longrightarrow>
      (\<exists>token payload. extractTokenFromHeader (authorization request) = Inr token \<and>
         verifyToken e token = Inr payload \<and>
         user_repo_findById db (jwt_userId payload) = Some user) \<and>
      withAuth e handler request ctx db =
        (case handler request ctx user db of
           (Inl err, db') \<Rightarrow> (withAuth_catch err, db')
         | (Inr res, db') \<Rightarrow> (res, db'))) \<and>
   (authenticate e db request = Inl err \<longrightarrow>
      (\<exists>m. err = AppError AuthenticationError m \<and>
         withAuth e handler request ctx db =
           (\<lparr>status = 401, body = Error_body m\<rparr>, db))) \<and>
   (extractTokenFromHeader (authorization request) = Inr token \<and>
    verifyToken e token = Inr payload \<and>
    user_repo_findById db (jwt_userId payload) = None \<longrightarrow>
      authenticate e db request = Inl (AppError AuthenticationError ''User not found'') \<and>
      withAuth e handler request ctx db =
        (\<lparr>status = 401, body = Error_body ''User not found''\<rparr>, db))"
proof (intro conjI impI)
  assume a: "authenticate e db request = Inr user"
  then show "\<exists>token payload. extractTokenFromHeader (authorization request) = Inr token \<and>
         verifyToken e token = Inr payload \<and>
         user_repo_findById db (jwt_userId payload) = Some user"
    by (simp add: authenticate_Inr)
  show "withAuth e handler request ctx db =
        (case handler request ctx user db of
           (Inl err, db') \<Rightarrow> (withAuth_catch err, db')
         | (Inr res, db') \<Rightarrow> (res, db'))"
    by (rule withAuth_dispatch [OF a])
next
  assume "authenticate e db request = Inl err"
  then show "\<exists>m. err = AppError AuthenticationError m \<and>
         withAuth e handler request ctx db =
           (\<lparr>status = 401, body = Error_body m\<rparr>, db)"
    by (rule withAuth_rejects)
next
  assume s: "extractTokenFromHeader (authorization request) = Inr token \<and>
    verifyToken e token = Inr payload \<and>
    user_repo_findById db (jwt_userId payload) = None"
  then show stale: "authenticate e db request = Inl (AppError AuthenticationError ''User not found'')"
    by (simp add: authenticate_stale_subject)
  show "withAuth e handler request ctx db =
        (\<lparr>status = 401, body = Error_body ''User not found''\<rparr>, db)"
    using withAuth_rejects [OF stale] by simp
qed

theorem auth_gateway_witness:
  "authenticate demo_env demo_db (bearer ''alice-token'' (None :: unit option))
     = Inr (user_of_row alice_row) \<and>
   withAuth demo_env wipe_handler (bearer ''alice-token'' None) ''1'' demo_db =
     (\<lparr>status = 200, body = Message_body ''wiped''\<rparr>, demo_db\<lparr>grocery_items := []\<rparr>) \<and>
   extractTokenFromHeader (authorization (bearer ''carol-token'' (None :: unit option)))
     = Inr ''carol-token'' \<and>
   verifyToken demo_env ''carol-token''
     = Inr \<lparr>jwt_userId = 7, jwt_email = ''carol@example.com''\<rparr> \<and>
   user_repo_findById demo_db 7 = None \<and>
   authenticate demo_env demo_db (bearer ''carol-token'' (None :: unit option))
     = Inl (AppError AuthenticationError ''User not found'') \<and>
   withAuth demo_env wipe_handler (bearer ''carol-token'' None) ''1'' demo_db =
     (\<lparr>status = 401, body = Error_body ''User not found''\<rparr>, demo_db)"
proof -
  have alice: "authenticate demo_env demo_db (bearer ''alice-token'' (None :: unit option))
                 = Inr (user_of_row alice_row)"
    by (rule authenticate_demo(1))
  have extracted: "extractTokenFromHeader (authorization (bearer ''carol-token'' (None :: unit option)))
     = Inr ''carol-token''"
    by (simp add: bearer_token)
  have verified: "verifyToken demo_env ''carol-token''
     = Inr \<lparr>jwt_userId = 7, jwt_email = ''carol@example.com''\<rparr>"
    by (simp add: demo_token_eval)
  have gone: "user_repo_findById demo_db
                (jwt_userId \<lparr>jwt_userId = 7, jwt_email = ''carol@example.com''\<rparr>) = None"
    by (simp add: user_repo_findById_def demo_db_def alice_row_def bob_row_def)
  note served =
    auth_gateway [where e = demo_env and db = demo_db
      and request = "bearer ''alice-token'' None" and user = "user_of_row alice_row"
      and handler = wipe_handler and ctx = "''1''", THEN conjunct1, rule_format, OF alice]
  note refused =
    auth_gateway [where e = demo_env and db = demo_db
      and request = "bearer ''carol-token'' None" and token = "''carol-token''"
      and payload = "\<lparr>jwt_userId = 7, jwt_email = ''carol@example.com''\<rparr>"
      and handler = wipe_handler and ctx = "''1''",
      THEN conjunct2, THEN conjunct2, rule_format,
      OF conjI [OF extracted conjI [OF verified gone]]]
  show ?thesis
    using alice extracted verified gone served refused
    by (simp add: wipe_handler_def)
qed

section \<open>Token verification\<close>






section \<open>Item routes\<close>

text \<open>
  When \<open>parseInt\<close> gives \<open>NaN\<close>: a run of digits once begun is a number, so the
  result is \<open>NaN\<close> exactly when the first code unit after the white space, the sign
  and the prefix is no digit of the radix.
\<close>

lemma digits_Some: "digits radix cs (Some a) \<noteq> None"
  by (induction cs arbitrary: a) (auto split: option.splits)

lemma digits_Cons_None: "digits radix (c # cs) None = None \<longleftrightarrow> digit_of radix c = None"
  by (auto simp: digits_Some split: option.splits)

lemma digit_of_10: "digit_of 10 c = None \<longleftrightarrow> \<not> is_decimal_digit c"
  by (auto simp: digit_of_def is_decimal_digit_def split: option.splits if_splits)

lemma digit_of_16: "digit_of 16 c = None \<longleftrightarrow> \<not> is_hex_digit c"
  by (auto simp: digit_of_def is_hex_digit_def split: option.splits if_splits)

lemma ascii_units:
  "ascii ''-'' = [45]" "ascii ''+'' = [43]" "ascii ''0x'' = [48, 120]" "ascii ''0X'' = [48, 88]"
  by (simp_all add: ascii_def)

lemma unsigned_NaN:
  "(if take 2 s = [48, 120] \<or> take 2 s = [48, 88] then digits 16 (drop 2 s) None
    else digits 10 s None) = None \<longleftrightarrow> \<not> unsigned_integer_prefix s"
proof (cases s rule: unsigned_integer_prefix.cases)
  case 1
  then show ?thesis by simp
next
  case (2 c)
  then show ?thesis
    by (simp add: digits_Cons_None digit_of_10 del: digits.simps(2))
next
  case (3 c x)
  then show ?thesis
    by (simp add: digits_Cons_None digit_of_10 del: digits.simps(2))
next
  case (4 c x d rest)
  then show ?thesis
    by (simp add: digits_Cons_None digit_of_10 digit_of_16 del: digits.simps(2))
qed

lemma parseInt_unsigned:
  "parseInt str = None \<longleftrightarrow>
     (let s = dropWhile is_white_space str;
          s1 = (if take 1 s = [45] \<or> take 1 s = [43] then drop 1 s else s)
      in (if take 2 s1 = [48, 120] \<or> take 2 s1 = [48, 88] then digits 16 (drop 2 s1) None
          else digits 10 s1 None) = None)"
  by (simp add: parseInt_def Let_def ascii_units split: option.splits)

lemma signed_prefix:
  "signed_integer_prefix s =
     unsigned_integer_prefix (if take 1 s = [45] \<or> take 1 s = [43] then drop 1 s else s)"
  by (cases s) auto

lemma parseInt_NaN: "parseInt str = None \<longleftrightarrow> \<not> integer_prefix str"
  by (simp add: parseInt_unsigned unsigned_NaN integer_prefix_def signed_prefix Let_def)

lemmas parseInt_eval = parseInt_def ascii_def digit_of_def is_white_space_def Let_def

lemma parseInt_prefix:
  "parseInt (ascii ''1abc'') = Some 1"
  "parseInt (ascii ''1.5'') = Some 1"
  "parseInt (ascii ''1'') = Some 1"
  by (simp_all add: parseInt_eval)

lemma getItem_milk: "getItem demo_db 1 1 = Inr milk_view"
  by (simp add: getItem_def validateRequestBody_def idSchema_def item_repo_findById_def
      int4_ok_def demo_db_def milk_row_def mapDbRowToGroceryItem_def
      toGroceryItemResponse_def milk_view_def)

lemma deleteItem_milk:
  "deleteItem demo_db 1 1 = (Inr (), demo_db\<lparr>grocery_items := []\<rparr>)"
  by (simp add: deleteItem_def validateRequestBody_def idSchema_def item_repo_delete_def
      int4_ok_def Let_def demo_db_def milk_row_def)

lemma alice_id: "user_id (user_of_row alice_row) = 1"
  by (simp add: user_of_row_def alice_row_def)

text \<open>
  Claim C9, counterexample. Two families of requests whose path segment is no integer
  are not answered 400. A request without an \<open>Authorization\<close> header to
  \<open>/api/grocery-items/abc\<close> is answered 401 by \<open>withAuth\<close>, for GET, PUT and DELETE:
  the handler that parses the id is not reached. And for Alice, who owns item 1, the
  segments \<open>1abc\<close> and \<open>1.5\<close> are read as the id 1: GET answers 200 with her item 1,
  and DELETE on \<open>/api/grocery-items/1abc\<close> answers 200 and deletes it.
\<close>

theorem invalid_id_without_token_is_401:
  "parseInt (ascii ''abc'') = None \<and>
   GET_item demo_env (anonymous None) (ascii ''abc'') demo_db =
     (\<lparr>status = 401, body = Error_body ''Authorization header missing''\<rparr>, demo_db) \<and>
   PUT_item demo_env (anonymous (Some empty_patch)) (ascii ''abc'') demo_db =
     (\<lparr>status = 401, body = Error_body ''Authorization header missing''\<rparr>, demo_db) \<and>
   DELETE_item demo_env (anonymous None) (ascii ''abc'') demo_db =
     (\<lparr>status = 401, body = Error_body ''Authorization header missing''\<rparr>, demo_db) \<and>
   parseInt (ascii ''1abc'') = Some 1 \<and>
   GET_item demo_env (bearer ''alice-token'' None) (ascii ''1abc'') demo_db =
     (\<lparr>status = 200, body = Item_body ''Grocery item retrieved successfully'' milk_view\<rparr>,
      demo_db) \<and>
   parseInt (ascii ''1.5'') = Some 1 \<and>
   GET_item demo_env (bearer ''alice-token'' None) (ascii ''1.5'') demo_db =
     (\<lparr>status = 200, body = Item_body ''Grocery item retrieved successfully'' milk_view\<rparr>,
      demo_db) \<and>
   DELETE_item demo_env (bearer ''alice-token'' None) (ascii ''1abc'') demo_db =
     (\<lparr>status = 200, body = Message_body ''Grocery item deleted successfully''\<rparr>,
      demo_db\<lparr>grocery_items := []\<rparr>)"
proof -
  have refused:
    "GET_item demo_env (anonymous None) (ascii ''abc'') demo_db =
       (\<lparr>status = 401, body = Error_body ''Authorization header missing''\<rparr>, demo_db)"
    "PUT_item demo_env (anonymous (Some empty_patch)) (ascii ''abc'') demo_db =
       (\<lparr>status = 401, body = Error_body ''Authorization header missing''\<rparr>, demo_db)"
    "DELETE_item demo_env (anonymous None) (ascii ''abc'') demo_db =
       (\<lparr>status = 401, body = Error_body ''Authorization header missing''\<rparr>, demo_db)"
    by (simp_all add: GET_item_def PUT_item_def DELETE_item_def withAuth_def
        authenticate_anonymous withAuth_catch_def)
  have served:
    "GET_item demo_env (bearer ''alice-token'' None) (ascii ''1abc'') demo_db =
       (\<lparr>status = 200, body = Item_body ''Grocery item retrieved successfully'' milk_view\<rparr>,
        demo_db)"
    "GET_item demo_env (bearer ''alice-token'' None) (ascii ''1.5'') demo_db =
       (\<lparr>status = 200, body = Item_body ''Grocery item retrieved successfully'' milk_view\<rparr>,
        demo_db)"
    by (simp_all add: GET_item_def withAuth_def authenticate_demo(1) GET_item_handler_def
        parseInt_prefix alice_id getItem_milk)
  have deleted:
    "DELETE_item demo_env (bearer ''alice-token'' None) (ascii ''1abc'') demo_db =
       (\<lparr>status = 200, body = Message_body ''Grocery item deleted successfully''\<rparr>,
        demo_db\<lparr>grocery_items := []\<rparr>)"
    by (simp add: DELETE_item_def withAuth_def authenticate_demo(1) DELETE_item_handler_def
        parseInt_prefix alice_id deleteItem_milk)
  show ?thesis
    using parseInt_abc parseInt_prefix(1,2) refused served deleted by (intro conjI)
qed

text \<open>
  Claim C9, as amended. For GET, PUT and DELETE on \<open>/api/grocery-items/{id}\<close>:
  a request that fails authentication is answered 401 with the message of the
  authentication error, whatever the path segment, and the store is left as it was;
  for a request that passes authentication and a path segment that does not begin with
  an integer (after leading white space and one sign, no decimal digit, or a prefix
  \<open>0x\<close> with no hexadecimal digit after it), which are the segments on which
  \<open>parseInt\<close> gives \<open>NaN\<close>, the answer is 400 with \<open>Invalid item ID\<close>, whatever the
  item table holds and without changing the store: no item is looked up. A segment that
  begins with an integer is not rejected here, whatever follows the digits.
\<close>

theorem invalid_id_rejected_after_authentication:
  "(parseInt ident = None \<longleftrightarrow> \<not> integer_prefix ident) \<and>
   (authenticate e db (request :: unit request) = Inr user \<and>
    authenticate e db (put_request :: UpdateGroceryItemRequest request) = Inr user' \<and>
    \<not> integer_prefix ident \<longrightarrow>
      GET_item e request ident (db\<lparr>grocery_items := rows\<rparr>)
        = (invalid_item_id, db\<lparr>grocery_items := rows\<rparr>) \<and>
      PUT_item e put_request ident (db\<lparr>grocery_items := rows\<rparr>)
        = (invalid_item_id, db\<lparr>grocery_items := rows\<rparr>) \<and>
      DELETE_item e request ident (db\<lparr>grocery_items := rows\<rparr>)
        = (invalid_item_id, db\<lparr>grocery_items := rows\<rparr>)) \<and>
   (authenticate e db request = Inl err \<longrightarrow>
      (\<exists>m. err = AppError AuthenticationError m \<and>
         GET_item e request ident db = (\<lparr>status = 401, body = Error_body m\<rparr>, db) \<and>
         DELETE_item e request ident db = (\<lparr>status = 401, body = Error_body m\<rparr>, db))) \<and>
   (authenticate e db put_request = Inl err' \<longrightarrow>
      (\<exists>m. err' = AppError AuthenticationError m \<and>
         PUT_item e put_request ident db = (\<lparr>status = 401, body = Error_body m\<rparr>, db))) \<and>
   (integer_prefix ident \<longrightarrow> (\<exists>n. parseInt ident = Some n))"
proof (intro conjI impI)
  show "parseInt ident = None \<longleftrightarrow> \<not> integer_prefix ident"
    by (rule parseInt_NaN)
next
  assume a: "authenticate e db request = Inr user \<and>
    authenticate e db put_request = Inr user' \<and> \<not> integer_prefix ident"
  then have nan: "parseInt ident = None"
    by (simp add: parseInt_NaN)
  show "GET_item e request ident (db\<lparr>grocery_items := rows\<rparr>)
        = (invalid_item_id, db\<lparr>grocery_items := rows\<rparr>)"
    using a nan
    by (simp add: GET_item_def withAuth_def authenticate_ignores_items GET_item_handler_def)
  show "PUT_item e put_request ident (db\<lparr>grocery_items := rows\<rparr>)
        = (invalid_item_id, db\<lparr>grocery_items := rows\<rparr>)"
    using a nan
    by (simp add: PUT_item_def withAuth_def authenticate_ignores_items PUT_item_handler_def)
  show "DELETE_item e request ident (db\<lparr>grocery_items := rows\<rparr>)
        = (invalid_item_id, db\<lparr>grocery_items := rows\<rparr>)"
    using a nan
    by (simp add: DELETE_item_def withAuth_def authenticate_ignores_items
        DELETE_item_handler_def)
next
  assume "authenticate e db request = Inl err"
  then show "\<exists>m. err = AppError AuthenticationError m \<and>
         GET_item e request ident db = (\<lparr>status = 401, body = Error_body m\<rparr>, db) \<and>
         DELETE_item e request ident db = (\<lparr>status = 401, body = Error_body m\<rparr>, db)"
    using withAuth_rejects [of e db request err GET_item_handler ident]
      withAuth_rejects [of e db request err DELETE_item_handler ident]
    by (auto simp: GET_item_def DELETE_item_def)
next
  assume "authenticate e db put_request = Inl err'"
  then show "\<exists>m. err' = AppError AuthenticationError m \<and>
         PUT_item e put_request ident db = (\<lparr>status = 401, body = Error_body m\<rparr>, db)"
    using withAuth_rejects [of e db put_request err' PUT_item_handler ident]
    by (auto simp: PUT_item_def)
next
  assume "integer_prefix ident"
  then show "\<exists>n. parseInt ident = Some n"
    using parseInt_NaN [of ident] by (cases "parseInt ident") auto
qed

theorem invalid_id_rejected_after_authentication_witness:
  "authenticate demo_env demo_db (bearer ''alice-token'' (None :: unit option))
     = Inr (user_of_row alice_row) \<and>
   authenticate demo_env demo_db (bearer ''alice-token'' (Some empty_patch))
     = Inr (user_of_row alice_row) \<and>
   \<not> integer_prefix (ascii ''abc'') \<and>
   parseInt (ascii ''abc'') = None \<and>
   GET_item demo_env (bearer ''alice-token'' None) (ascii ''abc'') demo_db
     = (invalid_item_id, demo_db) \<and>
   PUT_item demo_env (bearer ''alice-token'' (Some empty_patch)) (ascii ''abc'') demo_db
     = (invalid_item_id, demo_db) \<and>
   DELETE_item demo_env (bearer ''alice-token'' None) (ascii ''abc'') demo_db
     = (invalid_item_id, demo_db) \<and>
   \<not> integer_prefix (ascii ''0x'') \<and>
   DELETE_item demo_env (bearer ''alice-token'' None) (ascii ''0x'') demo_db
     = (invalid_item_id, demo_db) \<and>
   \<not> integer_prefix (ascii ''-'') \<and>
   DELETE_item demo_env (bearer ''alice-token'' None) (ascii ''-'') demo_db
     = (invalid_item_id, demo_db) \<and>
   \<not> integer_prefix (ascii ''.5'') \<and>
   DELETE_item demo_env (bearer ''alice-token'' None) (ascii ''.5'') demo_db
     = (invalid_item_id, demo_db) \<and>
   \<not> integer_prefix [0xA0, 0x2003] \<and>
   DELETE_item demo_env (bearer ''alice-token'' None) [0xA0, 0x2003] demo_db
     = (invalid_item_id, demo_db) \<and>
   authenticate demo_env demo_db (bearer ''carol-token'' (None :: unit option))
     = Inl (AppError AuthenticationError ''User not found'') \<and>
   GET_item demo_env (bearer ''carol-token'' None) (ascii ''1'') demo_db
     = (\<lparr>status = 401, body = Error_body ''User not found''\<rparr>, demo_db) \<and>
   integer_prefix [0xA0, 49, 0x20] \<and>
   parseInt [0xA0, 49, 0x20] = Some 1"
proof -
  note prefix_eval = integer_prefix_def is_white_space_def is_decimal_digit_def
    is_hex_digit_def ascii_def
  have same: "demo_db\<lparr>grocery_items := grocery_items demo_db\<rparr> = demo_db"
    by simp
  have none: "\<not> integer_prefix (ascii ''abc'')" "\<not> integer_prefix (ascii ''0x'')"
    "\<not> integer_prefix (ascii ''-'')" "\<not> integer_prefix (ascii ''.5'')"
    "\<not> integer_prefix [0xA0, 0x2003]"
    by (simp_all add: prefix_eval)
  have some: "integer_prefix [0xA0, 49, 0x20]"
    by (simp add: prefix_eval)
  note alice = authenticate_demo(1)
  note carol = authenticate_demo(2)
  note rejected =
    invalid_id_rejected_after_authentication
      [where e = demo_env and db = demo_db and request = "bearer ''alice-token'' None"
       and put_request = "bearer ''alice-token'' (Some empty_patch)"
       and rows = "grocery_items demo_db" and user = "user_of_row alice_row"
       and user' = "user_of_row alice_row",
       THEN conjunct2, THEN conjunct1, rule_format, unfolded same]
  have abc: "GET_item demo_env (bearer ''alice-token'' None) (ascii ''abc'') demo_db
     = (invalid_item_id, demo_db) \<and>
   PUT_item demo_env (bearer ''alice-token'' (Some empty_patch)) (ascii ''abc'') demo_db
     = (invalid_item_id, demo_db) \<and>
   DELETE_item demo_env (bearer ''alice-token'' None) (ascii ''abc'') demo_db
     = (invalid_item_id, demo_db)"
    by (rule rejected [OF conjI [OF alice conjI [OF alice none(1)]]])
  have nan: "parseInt (ascii ''abc'') = None"
    using invalid_id_rejected_after_authentication [where ident = "ascii ''abc''",
        THEN conjunct1] none(1)
    by simp
  have others:
    "DELETE_item demo_env (bearer ''alice-token'' None) (ascii ''0x'') demo_db
       = (invalid_item_id, demo_db)"
    "DELETE_item demo_env (bearer ''alice-token'' None) (ascii ''-'') demo_db
       = (invalid_item_id, demo_db)"
    "DELETE_item demo_env (bearer ''alice-token'' None) (ascii ''.5'') demo_db
       = (invalid_item_id, demo_db)"
    "DELETE_item demo_env (bearer ''alice-token'' None) [0xA0, 0x2003] demo_db
       = (invalid_item_id, demo_db)"
    using rejected [OF conjI [OF alice conjI [OF alice none(2)]]]
      rejected [OF conjI [OF alice conjI [OF alice none(3)]]]
      rejected [OF conjI [OF alice conjI [OF alice none(4)]]]
      rejected [OF conjI [OF alice conjI [OF alice none(5)]]]
    by simp_all
  have stale: "GET_item demo_env (bearer ''carol-token'' None) (ascii ''1'') demo_db
     = (\<lparr>status = 401, body = Error_body ''User not found''\<rparr>, demo_db)"
    using invalid_id_rejected_after_authentication
      [where e = demo_env and db = demo_db and request = "bearer ''carol-token'' None"
       and ident = "ascii ''1''" and err = "AppError AuthenticationError ''User not found''",
       THEN conjunct2, THEN conjunct2, THEN conjunct1, rule_format, OF carol]
    by simp
  have parsed: "parseInt [0xA0, 49, 0x20] = Some 1"
    using invalid_id_rejected_after_authentication [where ident = "[0xA0, 49, 0x20]",
        THEN conjunct2, THEN conjunct2, THEN conjunct2, THEN conjunct2, rule_format, OF some]
    by (auto simp: parseInt_eval)
  show ?thesis
    using alice alice [where b = "Some empty_patch"] none nan abc others carol stale some parsed
    by (intro conjI) simp_all
qed
section \<open>Empty patch\<close>

text \<open>
  What holds of the empty patch: \<open>updateItem\<close> fails on validation, before the
  repository is called, and leaves the store as it was. The error is the plain \<open>Error\<close>
  that \<open>validateRequestBody\<close> throws.
\<close>

lemma empty_patch_rejected:
  "updateItem db i uid empty_patch =
     (Inl (JsError (if 0 < i
                    then ''Validation failed: At least one field must be provided for update''
                    else ''Validation failed: ID must be a positive integer'')), db)"
  by (simp add: updateItem_def validateRequestBody_def idSchema_def
      updateGroceryItemSchema_def empty_patch_def opt_issue_def issue_def keys_present_def)

text \<open>
  Claim C4. Empty-patch rejection says that \<open>update(id, owner, {})\<close> fails with a
  ValidationError, mapped to 400. Alice's update of her item 1 with the empty patch
  fails with a plain \<open>Error\<close> whose message starts with \<open>Validation failed\<close>, which is
  no \<open>AppError\<close>; the \<open>catch\<close> of the PUT handler therefore answers 500 with
  \<open>Internal server error\<close>. The store stays as it was.
\<close>

theorem empty_patch_is_plain_error:
  "updateItem demo_db 1 1 empty_patch =
     (Inl (JsError ''Validation failed: At least one field must be provided for update''),
      demo_db) \<and>
   PUT_item demo_env (bearer ''alice-token'' (Some empty_patch)) (ascii ''1'') demo_db =
     (\<lparr>status = 500, body = Error_body ''Internal server error''\<rparr>, demo_db)"
proof -
  have one: "parseInt (ascii ''1'') = Some 1"
    by (simp add: parseInt_def ascii_def digit_of_def is_white_space_def)
  show ?thesis
    by (simp add: empty_patch_rejected PUT_item_def withAuth_def authenticate_demo(1)
        PUT_item_handler_def one bearer_json route_catch_def internal_server_error_def
        user_of_row_def alice_row_def)
qed

section \<open>Login\<close>

lemma find_by_email_none:
  "\<forall>r \<in> set (users db). urow_email r \<noteq> email \<Longrightarrow> user_repo_findByEmail db email = None"
  by (simp add: user_repo_findByEmail_def filter_empty_conv [THEN iffD2])

lemma filter_user_pk:
  "distinct (map urow_id rows) \<Longrightarrow> r \<in> set rows \<Longrightarrow>
   filter (\<lambda>x. urow_id x = urow_id r) rows = [r]"
proof (induction rows)
  case Nil
  then show ?case by simp
next
  case (Cons a rows)
  show ?case
  proof (cases "a = r")
    case True
    have "\<forall>x \<in> set rows. urow_id x \<noteq> urow_id r"
      using Cons.prems(1) True by (auto simp: image_iff)
    then have "filter (\<lambda>x. urow_id x = urow_id r) rows = []"
      by (simp add: filter_empty_conv)
    then show ?thesis using True by simp
  next
    case False
    then have mem: "r \<in> set rows" using Cons.prems(2) by simp
    then have "urow_id a \<noteq> urow_id r" using Cons.prems(1) by auto
    then show ?thesis using Cons.IH mem Cons.prems(1) by simp
  qed
qed

lemma filter_user_email:
  "distinct (map urow_email rows) \<Longrightarrow> r \<in> set rows \<Longrightarrow>
   filter (\<lambda>x. urow_email x = urow_email r) rows = [r]"
proof (induction rows)
  case Nil
  then show ?case by simp
next
  case (Cons a rows)
  show ?case
  proof (cases "a = r")
    case True
    have "\<forall>x \<in> set rows. urow_email x \<noteq> urow_email r"
      using Cons.prems(1) True by (auto simp: image_iff)
    then have "filter (\<lambda>x. urow_email x = urow_email r) rows = []"
      by (simp add: filter_empty_conv)
    then show ?thesis using True by simp
  next
    case False
    then have mem: "r \<in> set rows" using Cons.prems(2) by simp
    then have "urow_email a \<noteq> urow_email r" using Cons.prems(1) by auto
    then show ?thesis using Cons.IH mem Cons.prems(1) by simp
  qed
qed

lemma login_valid:
  "zod_email e (login_email d) \<Longrightarrow> login_password d \<noteq> [] \<Longrightarrow>
   validateRequestBody (loginSchema e) d = Inr d"
  by (simp add: validateRequestBody_def loginSchema_def issue_def)

text \<open>
  An e-mail no user has: \<open>findByEmail\<close> returns \<open>null\<close>, the lookup by id is made
  with id 0, and no row has id 0 since the sequence starts at 1.
\<close>

lemma login_unknown_email:
  assumes ok: "users_ok db" and shape: "zod_email e email" "pw \<noteq> []"
    and unknown: "\<forall>r \<in> set (users db). urow_email r \<noteq> email"
  shows "login e db \<lparr>login_email = email, login_password = pw\<rparr> = Inl invalid_credentials"
proof -
  have no_zero: "filter (\<lambda>r. urow_id r = 0) (users db) = []"
    using ok by (auto simp: users_ok_def filter_empty_conv)
  have by_id: "user_repo_findByIdWithPassword db 0 = None"
    by (simp add: user_repo_findByIdWithPassword_def no_zero)
  show ?thesis
    using shape
    by (simp add: login_def login_valid find_by_email_none [OF unknown] by_id)
qed

lemma login_wrong_password:
  assumes ok: "users_ok db" and shape: "zod_email e (urow_email r)" "pw \<noteq> []"
    and known: "r \<in> set (users db)"
    and wrong: "\<not> bcrypt_compare e pw (urow_password_hash r)"
  shows "login e db \<lparr>login_email = urow_email r, login_password = pw\<rparr>
           = Inl invalid_credentials"
proof -
  have by_email: "user_repo_findByEmail db (urow_email r) = Some (user_of_row r)"
    using ok known by (simp add: user_repo_findByEmail_def users_ok_def filter_user_email)
  have nonzero: "urow_id r \<noteq> 0"
    using ok known by (auto simp: users_ok_def)
  have by_id: "user_repo_findByIdWithPassword db (urow_id r) =
     Some \<lparr>uwp_id = urow_id r, uwp_email = urow_email r,
           uwp_passwordHash = urow_password_hash r,
           uwp_createdAt = urow_created_at r, uwp_updatedAt = urow_updated_at r\<rparr>"
    using ok known by (simp add: user_repo_findByIdWithPassword_def users_ok_def filter_user_pk)
  show ?thesis
    using shape wrong nonzero
    by (simp add: login_def login_valid by_email user_of_row_def by_id verifyPassword_def)
qed

text \<open>The right password logs Alice in: the failures below are not all \<open>login\<close> does.\<close>

lemma login_alice:
  "login demo_env demo_db
     \<lparr>login_email = ''alice@example.com'', login_password = ''wonderland''\<rparr> =
   Inr (user_of_row alice_row,
        \<lparr>accessToken = ''alice@example.com/24h'', refreshToken = ''alice@example.com/7d''\<rparr>)"
  by (simp add: login_def validateRequestBody_def loginSchema_def issue_def demo_env_def
      demo_zod_email_def user_repo_findByEmail_def user_repo_findByIdWithPassword_def
      demo_db_def alice_row_def bob_row_def user_of_row_def verifyPassword_def
      demo_bcrypt_compare_def generateTokens_def demo_jwt_sign_def)

text \<open>
  Claim C6, counterexample. A login with an e-mail no user has and the empty password
  fails in \<open>validateRequestBody\<close>, before any lookup, with a plain \<open>Error\<close>: the error
  is no AuthenticationError and its message is not \<open>Invalid email or password\<close>.
\<close>

theorem login_empty_password_is_plain_error:
  "login demo_env demo_db \<lparr>login_email = ''nobody@example.com'', login_password = []\<rparr>
     = Inl (JsError ''Validation failed: Password is required'')"
  by (simp add: login_def validateRequestBody_def loginSchema_def issue_def demo_env_def
      demo_zod_email_def)

text \<open>
  Claim C6, as amended. In a well-formed users table, for every login whose input
  passes \<open>loginSchema\<close> (an e-mail Zod accepts and a password that is not empty): a
  login with an e-mail that no stored user has, and a login with the e-mail of a
  stored user and a password that the comparison with the stored hash rejects, both
  fail with the same error, \<open>AuthenticationError('Invalid email or password')\<close>.
\<close>

theorem login_failures_indistinguishable:
  assumes "users_ok db"
    and "zod_email e unknownEmail" and "pw \<noteq> []"
    and "\<forall>u \<in> set (users db). urow_email u \<noteq> unknownEmail"
    and "r \<in> set (users db)" and "zod_email e (urow_email r)" and "wrongPw \<noteq> []"
    and "\<not> bcrypt_compare e wrongPw (urow_password_hash r)"
  shows "login e db \<lparr>login_email = unknownEmail, login_password = pw\<rparr>
           = Inl (AppError AuthenticationError ''Invalid email or password'') \<and>
         login e db \<lparr>login_email = urow_email r, login_password = wrongPw\<rparr>
           = Inl (AppError AuthenticationError ''Invalid email or password'')"
  using login_unknown_email [OF assms(1,2,3,4)] login_wrong_password [OF assms(1,6,7,5,8)]
  by (simp add: invalid_credentials_def)

theorem login_failures_indistinguishable_witness:
  "users_ok demo_db \<and> zod_email demo_env ''nobody@example.com'' \<and> ''guess'' \<noteq> [] \<and>
   alice_row \<in> set (users demo_db) \<and> zod_email demo_env (urow_email alice_row) \<and>
   \<not> bcrypt_compare demo_env ''guess'' (urow_password_hash alice_row) \<and>
   login demo_env demo_db \<lparr>login_email = ''nobody@example.com'', login_password = ''guess''\<rparr>
     = Inl (AppError AuthenticationError ''Invalid email or password'') \<and>
   login demo_env demo_db \<lparr>login_email = ''alice@example.com'', login_password = ''guess''\<rparr>
     = Inl (AppError AuthenticationError ''Invalid email or password'')"
proof -
  have ok: "users_ok demo_db"
    by (simp add: users_ok_def demo_db_def alice_row_def bob_row_def)
  have shape: "zod_email demo_env ''nobody@example.com''" "''guess'' \<noteq> []"
    "zod_email demo_env (urow_email alice_row)"
    by (simp_all add: demo_env_def demo_zod_email_def alice_row_def)
  have unknown: "\<forall>u \<in> set (users demo_db). urow_email u \<noteq> ''nobody@example.com''"
    by (simp add: demo_db_def alice_row_def bob_row_def)
  have known: "alice_row \<in> set (users demo_db)"
    by (simp add: demo_db_def)
  have wrong: "\<not> bcrypt_compare demo_env ''guess'' (urow_password_hash alice_row)"
    by (simp add: demo_env_def demo_bcrypt_compare_def alice_row_def)
  have email: "urow_email alice_row = ''alice@example.com''"
    by (simp add: alice_row_def)
  show ?thesis
    using ok shape known wrong
      login_failures_indistinguishable
        [OF ok shape(1) shape(2) unknown known shape(3) shape(2) wrong]
    by (simp add: email)
qed

end
